theory Spec2Isabelle
  imports Complex_Main "HOL-Library.Word"
begin

unbundle bit_operations_syntax

section \<open>corinfo.h: data model\<close>

text \<open>
  The C integer types of \<^verbatim>\<open>corinfo.h\<close> are machine words:
  \<^verbatim>\<open>uint8_t\<close>, \<^verbatim>\<open>uint32_t\<close> and the 64-bit \<^verbatim>\<open>unsigned long\<close>, \<^verbatim>\<open>size_t\<close> and
  \<^verbatim>\<open>long\<close> of x86-64. A C \<^verbatim>\<open>int\<close> is a 32-bit word read in two's complement
  (\<open>sint\<close>); its right shift \<^verbatim>\<open>>>\<close> is the arithmetic one (\<open>signed_drop_bit\<close>), as
  gcc and MSVC implement it.
\<close>

type_synonym u8 = "8 word"
type_synonym u32 = "32 word"
type_synonym u64 = "64 word"
type_synonym s32 = "32 word"

text \<open>
  \<^verbatim>\<open>struct corinfo\<close>. The two fixed-size arrays are lists; a well-formed struct has
  12 vendor bytes and 48 brand bytes.
\<close>

record corinfo =
  CpuCount :: u32
  CpuFrequency :: u32
  VendorString :: "u8 list"
  BrandString :: "u8 list"
  MMX :: u8
  SSE :: u8
  SSE2 :: u8
  SSE3 :: u8
  SSE41 :: u8
  SSE42 :: u8
  AVX :: u8
  RamSize :: u32
  RamFree :: u32
  RamUsage :: u32

definition corinfo_wf :: "corinfo \<Rightarrow> bool" where
  "corinfo_wf info \<longleftrightarrow> length (VendorString info) = 12 \<and> length (BrandString info) = 48"

text \<open>
  What the C program leaves undefined is a value of the model: a write or a read
  outside a buffer, a dereferenced null pointer, a read of a variable that was never
  assigned, \<^verbatim>\<open>atoi\<close> on a number that does not fit an \<^verbatim>\<open>int\<close>, and the conversion
  to an integer type of a \<^verbatim>\<open>float\<close> whose integral part that type cannot represent.
\<close>

datatype fault =
  Out_of_bounds_write
  | Out_of_bounds_read
  | Null_dereference
  | Uninitialized_read
  | Atoi_overflow
  | Undefined_conversion

text \<open>
  The calls that leave the program: the \<^verbatim>\<open>cpuid\<close> instruction with its input code,
  and the system and library calls of the two platform variants.
\<close>

datatype event =
  Ev_cpuid s32
  | Ev_sysinfo
  | Ev_fopen
  | Ev_getline
  | Ev_fclose
  | Ev_sysconf
  | Ev_GetSystemInfo
  | Ev_GlobalMemoryStatusEx
  | Ev_RegOpenKeyEx
  | Ev_FormatMessage
  | Ev_wprintf
  | Ev_RegQueryValueEx

section \<open>The identification instruction\<close>

text \<open>
  \<^verbatim>\<open>int cpu[4]\<close> is a list of four words. The processor is a function from the
  input code (\<^verbatim>\<open>eax\<close>, with \<^verbatim>\<open>ecx = 0\<close>) to the four output registers; the macro
  \<^verbatim>\<open>__cpuid(cpu, command)\<close> stores them in \<^verbatim>\<open>cpu[0..3]\<close>.
\<close>

type_synonym regs = "s32 list"
type_synonym processor = "s32 \<Rightarrow> s32 \<times> s32 \<times> s32 \<times> s32"

definition cpuid :: "processor \<Rightarrow> s32 \<Rightarrow> event list \<Rightarrow> regs \<times> event list" where
  "cpuid hw command calls =
     (case hw command of (a, b, c, d) \<Rightarrow> ([a, b, c, d], calls @ [Ev_cpuid command]))"

section \<open>Register decoder\<close>

text \<open>\<^verbatim>\<open>string[i] = v\<close> through a \<^verbatim>\<open>uint8_t*\<close>: defined inside the buffer only.\<close>

definition store_byte :: "u8 list \<Rightarrow> nat \<Rightarrow> u8 \<Rightarrow> fault + u8 list" where
  "store_byte string i v =
     (if i < length string then Inr (string[i := v]) else Inl Out_of_bounds_write)"

text \<open>\<^verbatim>\<open>(r >> n) & 0xFF\<close> on an \<^verbatim>\<open>int\<close>, converted to \<^verbatim>\<open>uint8_t\<close>.\<close>

definition shift_byte :: "s32 \<Rightarrow> nat \<Rightarrow> u8" where
  "shift_byte r n = ucast (signed_drop_bit n r AND 0xFF)"

text \<open>\<^verbatim>\<open>(r >> n) & 0x1\<close> on an \<^verbatim>\<open>int\<close>, converted to \<^verbatim>\<open>uint8_t\<close>.\<close>

definition shift_bit :: "s32 \<Rightarrow> nat \<Rightarrow> u8" where
  "shift_bit r n = ucast (signed_drop_bit n r AND 0x1)"

text \<open>Sequencing of steps that may fault.\<close>

definition and_then :: "fault + 'a \<Rightarrow> ('a \<Rightarrow> fault + 'b) \<Rightarrow> fault + 'b" where
  "and_then r f = (case r of Inl e \<Rightarrow> Inl e | Inr x \<Rightarrow> f x)"

text \<open>\<^verbatim>\<open>__vendor_string\<close>: the loop \<^verbatim>\<open>for (int i = 0; i < 4; i++)\<close> from \<open>i\<close> on.\<close>

function vendor_loop :: "regs \<Rightarrow> nat \<Rightarrow> u8 list \<Rightarrow> fault + u8 list" where
  "vendor_loop cpu i string =
     (if i < 4 then
        and_then (store_byte string (i + 0) (shift_byte (cpu ! 1) (i * 8))) (\<lambda>s1.
        and_then (store_byte s1 (i + 4) (shift_byte (cpu ! 3) (i * 8))) (\<lambda>s2.
        and_then (store_byte s2 (i + 8) (shift_byte (cpu ! 2) (i * 8))) (\<lambda>s3.
        vendor_loop cpu (i + 1) s3)))
      else Inr string)"
  by pat_completeness auto
termination
  by (relation "measure (\<lambda>(cpu, i, string). 4 - i)") auto

definition vendor_string :: "regs \<Rightarrow> u8 list \<Rightarrow> fault + u8 list" where
  "vendor_string cpu string = vendor_loop cpu 0 string"

text \<open>The four bytes of a register, lowest byte first.\<close>

definition le_bytes :: "s32 \<Rightarrow> u8 list" where
  "le_bytes w = [ucast w, ucast (drop_bit 8 w), ucast (drop_bit 16 w), ucast (drop_bit 24 w)]"

text \<open>
  \<^verbatim>\<open>__brand_string\<close>: the inner loop \<^verbatim>\<open>for (int j = 0; j < 4; j++)\<close> from \<open>j\<close> on,
  at the current \<^verbatim>\<open>offset\<close>.
\<close>

function brand_inner :: "regs \<Rightarrow> nat \<Rightarrow> nat \<Rightarrow> u8 list \<Rightarrow> fault + u8 list" where
  "brand_inner cpu offset j string =
     (if j < 4 then
        and_then (store_byte string (offset + j + 0) (shift_byte (cpu ! 0) (j * 8))) (\<lambda>s1.
        and_then (store_byte s1 (offset + j + 4) (shift_byte (cpu ! 1) (j * 8))) (\<lambda>s2.
        and_then (store_byte s2 (offset + j + 8) (shift_byte (cpu ! 2) (j * 8))) (\<lambda>s3.
        and_then (store_byte s3 (offset + j + 12) (shift_byte (cpu ! 3) (j * 8))) (\<lambda>s4.
        brand_inner cpu offset (j + 1) s4))))
      else Inr string)"
  by pat_completeness auto
termination
  by (relation "measure (\<lambda>(cpu, offset, j, string). 4 - j)") auto

text \<open>\<^verbatim>\<open>int commands[3] = { 0x80000002, 0x80000003, 0x80000004 }\<close>\<close>

definition commands :: "s32 list" where
  "commands = [0x80000002, 0x80000003, 0x80000004]"

text \<open>
  The outer loop \<^verbatim>\<open>for (int i = 0; i < 3; i++)\<close> from \<open>i\<close> on: one identification
  call, sixteen stores, \<^verbatim>\<open>offset += 16\<close>.
\<close>

function brand_loop ::
  "processor \<Rightarrow> regs \<Rightarrow> nat \<Rightarrow> nat \<Rightarrow> u8 list \<Rightarrow> event list \<Rightarrow> fault + (regs \<times> u8 list \<times> event list)"
where
  "brand_loop hw cpu i offset string calls =
     (if i < 3 then
        (case cpuid hw (commands ! i) calls of (cpu', calls') \<Rightarrow>
           and_then (brand_inner cpu' offset 0 string) (\<lambda>s.
           brand_loop hw cpu' (i + 1) (offset + 16) s calls'))
      else Inr (cpu, string, calls))"
  by pat_completeness auto
termination
  by (relation "measure (\<lambda>(hw, cpu, i, offset, string, calls). 3 - i)") auto

definition brand_string ::
  "processor \<Rightarrow> regs \<Rightarrow> u8 list \<Rightarrow> event list \<Rightarrow> fault + (regs \<times> u8 list \<times> event list)"
where
  "brand_string hw cpu string calls = brand_loop hw cpu 0 0 string calls"

text \<open>\<^verbatim>\<open>__extensions\<close>: one identification call with input code 1, seven single bits.\<close>

definition extensions ::
  "processor \<Rightarrow> regs \<Rightarrow> corinfo \<Rightarrow> event list \<Rightarrow> regs \<times> corinfo \<times> event list"
where
  "extensions hw cpu info calls =
     (case cpuid hw 0x00000001 calls of (cpu', calls') \<Rightarrow>
        (cpu',
         info\<lparr>MMX := shift_bit (cpu' ! 3) 23,
              SSE := shift_bit (cpu' ! 3) 25,
              SSE2 := shift_bit (cpu' ! 3) 26,
              SSE3 := shift_bit (cpu' ! 2) 0,
              SSE41 := shift_bit (cpu' ! 2) 19,
              SSE42 := shift_bit (cpu' ! 2) 20,
              AVX := shift_bit (cpu' ! 2) 28\<rparr>,
         calls'))"

section \<open>Snapshot assembler\<close>

text \<open>The loops \<^verbatim>\<open>for (int i = 0; i < n; i++) a[i] = 0\<close> of \<^verbatim>\<open>__null_corinfo\<close>.\<close>

function zero_loop :: "nat \<Rightarrow> nat \<Rightarrow> u8 list \<Rightarrow> u8 list" where
  "zero_loop n i a = (if i < n then zero_loop n (i + 1) (a[i := 0]) else a)"
  by pat_completeness auto
termination
  by (relation "measure (\<lambda>(n, i, a). n - i)") auto

definition null_corinfo :: "corinfo \<Rightarrow> corinfo" where
  "null_corinfo info =
     info\<lparr>CpuCount := 0,
          CpuFrequency := 0,
          VendorString := zero_loop 12 0 (VendorString info),
          BrandString := zero_loop 48 0 (BrandString info),
          MMX := 0, SSE := 0, SSE2 := 0, SSE3 := 0, SSE41 := 0, SSE42 := 0, AVX := 0,
          RamSize := 0,
          RamFree := 0,
          RamUsage := 0\<rparr>"

section \<open>Single-precision arithmetic\<close>

text \<open>
  The \<^verbatim>\<open>float\<close> of x86-64 is IEEE 754 binary32, and every operation is rounded on
  its own to the nearest value with a significand of 24 bits, ties to the even
  significand. A finite \<^verbatim>\<open>float\<close> is the real number it denotes. The exponent is not
  bounded here: what line 148 computes from two 32-bit integers with a divisor that is
  not zero is zero, or has a magnitude between \<open>2\<^sup>-\<^sup>3\<^sup>2\<close> and \<open>2\<^sup>3\<^sup>9\<close>, or is the
  difference of \<open>100\<close> and such a \<^verbatim>\<open>float\<close>: all far inside the range of the format.
\<close>

definition round_half_even :: "real \<Rightarrow> int" where
  "round_half_even x =
     (let n = \<lfloor>x\<rfloor>; d = x - of_int n
      in if d < 1 / 2 then n else if 1 / 2 < d then n + 1 else if even n then n else n + 1)"

definition exponent :: "real \<Rightarrow> int" where
  "exponent r = \<lfloor>log 2 \<bar>r\<bar>\<rfloor>"

definition round32 :: "real \<Rightarrow> real" where
  "round32 r =
     (if r = 0 then 0
      else let u = 2 powr of_int (exponent r - 23)
           in of_int (round_half_even (r / u)) * u)"

text \<open>The conversion of a \<^verbatim>\<open>uint32_t\<close> to \<^verbatim>\<open>float\<close>.\<close>

definition float_of_u32 :: "u32 \<Rightarrow> real" where
  "float_of_u32 w = round32 (real (unat w))"

text \<open>
  The conversion of a \<^verbatim>\<open>float\<close> to \<^verbatim>\<open>uint32_t\<close>: the fractional part is discarded,
  and the behaviour is undefined when the integral part is not a value of the type.
\<close>

definition integral_part :: "real \<Rightarrow> int" where
  "integral_part d = (if 0 \<le> d then \<lfloor>d\<rfloor> else \<lceil>d\<rceil>)"

definition u32_of_float :: "real \<Rightarrow> fault + u32" where
  "u32_of_float d =
     (if - 1 < d \<and> d < 2 ^ 32 then Inr (word_of_int (integral_part d))
      else Inl Undefined_conversion)"

text \<open>
  \<^verbatim>\<open>100 - (info->RamFree / (float)info->RamSize) * 100\<close>, assigned to the
  \<^verbatim>\<open>uint32_t\<close> \<^verbatim>\<open>RamUsage\<close>: \<^verbatim>\<open>RamFree\<close> is converted to \<^verbatim>\<open>float\<close> for the division and
  the two \<^verbatim>\<open>int\<close> constants are the \<^verbatim>\<open>float\<close> \<open>100\<close>. A division by zero gives an
  infinity or a NaN, which the multiplication and the subtraction keep and which has no
  integral part to convert.
\<close>

definition ram_usage :: "u32 \<Rightarrow> u32 \<Rightarrow> fault + u32" where
  "ram_usage fr sz =
     (let x = float_of_u32 sz; y = float_of_u32 fr
      in if x = 0 then Inl Undefined_conversion
         else let q = round32 (y / x); m = round32 (q * 100); d = round32 (100 - m)
              in u32_of_float d)"

section \<open>Platform collector, Unix-like variant\<close>

text \<open>
  \<^verbatim>\<open>getline\<close> on the rest of the file: the next line with its newline (the last
  line may have none), and what is left; \<open>None\<close> at the end of the file
  (\<^verbatim>\<open>getline\<close> returns \<open>-1\<close>).
\<close>

fun getline :: "string \<Rightarrow> (string \<times> string) option" where
  "getline [] = None"
| "getline (c # cs) =
     (if c = CHR 0x0A then Some ([c], cs)
      else (case getline cs of
              None \<Rightarrow> Some ([c], [])
            | Some (l, r) \<Rightarrow> Some (c # l, r)))"

text \<open>
  \<^verbatim>\<open>memcmp(line, "cpu MHz", 7) == 0\<close>. The buffer holds the line and its terminating
  zero byte; the marker has no zero byte, so the comparison is decided inside the line.
\<close>

definition marker_line :: "string \<Rightarrow> bool" where
  "marker_line line \<longleftrightarrow> take 7 line = ''cpu MHz''"

text \<open>
  The buffer that \<^verbatim>\<open>getline\<close> fills: the bytes of the line, zero bytes of the file
  among them, and a terminating zero byte. What the allocation holds after that is not
  part of the buffer.
\<close>

definition line_buffer :: "string \<Rightarrow> string" where
  "line_buffer line = line @ [CHR 0x00]"

text \<open>The C string of a buffer ends before its first zero byte.\<close>

definition c_string :: "string \<Rightarrow> string" where
  "c_string buf = takeWhile (\<lambda>c. c \<noteq> CHR 0x00) buf"

text \<open>
  \<^verbatim>\<open>strchr(s, c)\<close>: the offset in the buffer of the first \<open>c\<close> of its C string;
  \<open>None\<close> is \<^verbatim>\<open>NULL\<close>.
\<close>

definition strchr :: "string \<Rightarrow> char \<Rightarrow> nat option" where
  "strchr buf c =
     (let n = length (takeWhile (\<lambda>x. x \<noteq> c) (c_string buf))
      in if n < length (c_string buf) then Some n else None)"

text \<open>
  The C string that a pointer into the buffer points at; \<open>None\<close> when the pointer
  is past the terminating zero byte.
\<close>

definition string_at :: "string \<Rightarrow> nat \<Rightarrow> string option" where
  "string_at buf p = (if p < length buf then Some (c_string (drop p buf)) else None)"

text \<open>
  \<^verbatim>\<open>atoi\<close>: white space, an optional sign, decimal digits; undefined when the number
  does not fit an \<^verbatim>\<open>int\<close>.
\<close>

definition isspace :: "char \<Rightarrow> bool" where
  "isspace c \<longleftrightarrow>
     c = CHR 0x20 \<or> c = CHR 0x09 \<or> c = CHR 0x0A \<or> c = CHR 0x0B \<or> c = CHR 0x0C \<or> c = CHR 0x0D"

definition isdigit :: "char \<Rightarrow> bool" where
  "isdigit c \<longleftrightarrow> (48::nat) \<le> of_char c \<and> of_char c \<le> (57::nat)"

fun digits :: "int \<Rightarrow> string \<Rightarrow> int" where
  "digits acc [] = acc"
| "digits acc (c # cs) =
     (if isdigit c then digits (acc * 10 + (of_char c - 48)) cs else acc)"

definition atoi_value :: "string \<Rightarrow> int" where
  "atoi_value s =
     (case dropWhile isspace s of
        [] \<Rightarrow> 0
      | c # cs \<Rightarrow>
          if c = CHR ''-'' then - digits 0 cs
          else if c = CHR ''+'' then digits 0 cs
          else digits 0 (c # cs))"

definition atoi :: "string \<Rightarrow> fault + s32" where
  "atoi s =
     (let v = atoi_value s
      in if - (2 ^ 31) \<le> v \<and> v < 2 ^ 31 then Inr (word_of_int v) else Inl Atoi_overflow)"

text \<open>
  \<^verbatim>\<open>MHz = atoi(strchr(line, ':') + 2)\<close>, with \<^verbatim>\<open>size_t MHz\<close>: the pointer two bytes
  after the first colon of the C string. It points into the buffer, so a zero byte of
  the line after the colon does not stop it. Without a colon the pointer is
  \<^verbatim>\<open>NULL + 2\<close>; with the colon as the last byte of the line it is past the terminating
  zero byte.
\<close>

definition parse_MHz :: "string \<Rightarrow> fault + u64" where
  "parse_MHz line =
     (case strchr (line_buffer line) CHR '':'' of
        None \<Rightarrow> Inl Null_dereference
      | Some p \<Rightarrow>
          (case string_at (line_buffer line) (p + 2) of
             None \<Rightarrow> Inl Out_of_bounds_read
           | Some s \<Rightarrow> and_then (atoi s) (\<lambda>v. Inr (scast v))))"

lemma getline_shorter: "getline f = Some (line, rest) \<Longrightarrow> length rest < length f"
  by (induction f arbitrary: line rest) (auto split: if_splits option.splits)

text \<open>
  The scan \<^verbatim>\<open>while ((line_read = getline(&line, &line_length, f)) != -1)\<close>. The
  result is \<^verbatim>\<open>MHz\<close>: \<open>None\<close> while it was never assigned.
\<close>

function scan_loop :: "string \<Rightarrow> event list \<Rightarrow> fault + (u64 option \<times> event list)" where
  "scan_loop f calls =
     (case getline f of
        None \<Rightarrow> Inr (None, calls @ [Ev_getline])
      | Some (line, rest) \<Rightarrow>
          if marker_line line then
            and_then (parse_MHz line) (\<lambda>m. Inr (Some m, calls @ [Ev_getline]))
          else scan_loop rest (calls @ [Ev_getline]))"
  by pat_completeness auto
termination
  by (relation "measure (\<lambda>(f, calls). length f)") (auto simp add: getline_shorter)

text \<open>The fields of \<^verbatim>\<open>struct sysinfo\<close> that the program reads.\<close>

record sysinfo_t =
  totalram :: u64
  freeram :: u64

text \<open>
  The host as the Unix-like variant sees it: the processor, the result of
  \<^verbatim>\<open>sysinfo\<close> (\<open>None\<close>: it returns \<open>-1\<close>), the content of \<^verbatim>\<open>/proc/cpuinfo\<close>
  (\<open>None\<close>: \<^verbatim>\<open>fopen\<close> returns \<^verbatim>\<open>NULL\<close>), and the result of
  \<^verbatim>\<open>sysconf(_SC_NPROCESSORS_ONLN)\<close>.
\<close>

record linux_host =
  lx_processor :: processor
  lx_sysinfo :: "sysinfo_t option"
  lx_cpuinfo :: "string option"
  lx_nprocessors_onln :: u64

text \<open>
  \<^verbatim>\<open>corinfo_GetInfo\<close> under \<^verbatim>\<open>__linux\<close>. The pointer \<^verbatim>\<open>info\<close> is \<open>None\<close> when
  \<^verbatim>\<open>NULL\<close>. The result is the returned \<^verbatim>\<open>int\<close>, the struct behind the pointer and
  the calls made, in order.
\<close>

definition corinfo_GetInfo_linux ::
  "linux_host \<Rightarrow> corinfo option \<Rightarrow> fault + (int \<times> corinfo option \<times> event list)"
where
  "corinfo_GetInfo_linux host infop =
     (case infop of
        None \<Rightarrow> Inr (- 1, None, [])
      | Some info0 \<Rightarrow>
          let info1 = null_corinfo info0 in
          (case lx_sysinfo host of
             None \<Rightarrow> Inr (- 1, Some info1, [Ev_sysinfo])
           | Some sys \<Rightarrow>
               (case cpuid (lx_processor host) 0x00000000 [Ev_sysinfo] of (cpu1, calls1) \<Rightarrow>
                and_then (vendor_string cpu1 (VendorString info1)) (\<lambda>v.
                let info2 = info1\<lparr>VendorString := v\<rparr> in
                and_then (brand_string (lx_processor host) cpu1 (BrandString info2) calls1)
                  (\<lambda>(cpu2, b, calls2).
                let info3 = info2\<lparr>BrandString := b\<rparr> in
                (case extensions (lx_processor host) cpu2 info3 calls2 of (cpu3, info4, calls3) \<Rightarrow>
                (case lx_cpuinfo host of
                   None \<Rightarrow> Inr (- 1, Some info4, calls3 @ [Ev_fopen])
                 | Some f \<Rightarrow>
                     and_then (scan_loop f (calls3 @ [Ev_fopen])) (\<lambda>(MHz, calls4).
                     let calls5 = calls4 @ [Ev_fclose, Ev_sysconf];
                         info5 = info4\<lparr>CpuCount := ucast (lx_nprocessors_onln host)\<rparr>
                     in (case MHz of
                           None \<Rightarrow> Inl Uninitialized_read
                         | Some m \<Rightarrow>
                             let info6 = info5\<lparr>CpuFrequency := ucast m\<rparr>;
                                 info7 = info6\<lparr>RamSize := ucast (totalram sys div 1024)\<rparr>;
                                 info8 = info7\<lparr>RamFree := ucast (freeram sys div 1024)\<rparr>
                             in and_then (ram_usage (RamFree info8) (RamSize info8))
                                  (\<lambda>usage.
                                     let info9 = info8\<lparr>RamUsage := usage\<rparr>
                                     in Inr (0, Some info9, calls5)))))))))))"

section \<open>Platform collector, registry-based variant\<close>

text \<open>The fields of \<^verbatim>\<open>MEMORYSTATUSEX\<close> that the program reads.\<close>

record memorystatusex =
  ullTotalPhys :: u64
  ullAvailPhys :: u64
  dwMemoryLoad :: u32

text \<open>\<^verbatim>\<open>_MAX_PATH\<close> and \<^verbatim>\<open>ERROR_SUCCESS\<close> of the platform headers.\<close>

definition MAX_PATH :: u32 where
  "MAX_PATH = 260"

definition ERROR_SUCCESS :: "32 word" where
  "ERROR_SUCCESS = 0"

text \<open>
  The host as the registry-based variant sees it: the processor,
  \<^verbatim>\<open>sys.dwNumberOfProcessors\<close> after \<^verbatim>\<open>GetSystemInfo\<close>, what
  \<^verbatim>\<open>GlobalMemoryStatusEx\<close> stores in \<^verbatim>\<open>mem\<close> (\<open>None\<close>: it fails and stores nothing),
  the \<^verbatim>\<open>long\<close> returned by \<^verbatim>\<open>RegOpenKeyEx\<close>, and what \<^verbatim>\<open>RegQueryValueEx\<close> stores in
  \<^verbatim>\<open>dwMHz\<close> (\<open>None\<close>: it fails and stores nothing).
\<close>

record win_host =
  w_processor :: processor
  w_dwNumberOfProcessors :: u32
  w_GlobalMemoryStatusEx :: "memorystatusex option"
  w_RegOpenKeyEx :: "32 word"
  w_RegQueryValueEx :: "u32 option"

text \<open>\<^verbatim>\<open>corinfo_GetInfo\<close> under \<^verbatim>\<open>_WIN32\<close>.\<close>

definition corinfo_GetInfo_win32 ::
  "win_host \<Rightarrow> corinfo option \<Rightarrow> fault + (int \<times> corinfo option \<times> event list)"
where
  "corinfo_GetInfo_win32 host infop =
     (case infop of
        None \<Rightarrow> Inr (- 1, None, [])
      | Some info0 \<Rightarrow>
          let info1 = null_corinfo info0;
              calls0 = [Ev_GetSystemInfo, Ev_GlobalMemoryStatusEx]
          in
          (case cpuid (w_processor host) 0x00000000 calls0 of (cpu1, calls1) \<Rightarrow>
           and_then (vendor_string cpu1 (VendorString info1)) (\<lambda>v.
           let info2 = info1\<lparr>VendorString := v\<rparr> in
           and_then (brand_string (w_processor host) cpu1 (BrandString info2) calls1)
             (\<lambda>(cpu2, b, calls2).
           let info3 = info2\<lparr>BrandString := b\<rparr> in
           (case extensions (w_processor host) cpu2 info3 calls2 of (cpu3, info4, calls3) \<Rightarrow>
           let dwMHz0 = MAX_PATH;
               lError = w_RegOpenKeyEx host;
               calls4 = calls3 @ [Ev_RegOpenKeyEx]
           in
           if lError \<noteq> ERROR_SUCCESS then
             Inr (0, Some info4, calls4 @ [Ev_FormatMessage, Ev_wprintf])
           else
             let dwMHz = (case w_RegQueryValueEx host of None \<Rightarrow> dwMHz0 | Some v \<Rightarrow> v);
                 calls5 = calls4 @ [Ev_RegQueryValueEx];
                 info5 = info4\<lparr>CpuCount := w_dwNumberOfProcessors host\<rparr>;
                 info6 = info5\<lparr>CpuFrequency := dwMHz\<rparr>
             in (case w_GlobalMemoryStatusEx host of
                   None \<Rightarrow> Inl Uninitialized_read
                 | Some mem \<Rightarrow>
                     let info7 = info6\<lparr>RamSize := ucast (ullTotalPhys mem div 1024)\<rparr>;
                         info8 = info7\<lparr>RamFree := ucast (ullAvailPhys mem div 1024)\<rparr>;
                         info9 = info8\<lparr>RamUsage := dwMemoryLoad mem\<rparr>
                     in Inr (0, Some info9, calls5)))))))"

section \<open>Notions of the specification\<close>

text \<open>The seven extension flags of a snapshot, in the order of the struct.\<close>

definition flags :: "corinfo \<Rightarrow> u8 list" where
  "flags info = [MMX info, SSE info, SSE2 info, SSE3 info, SSE41 info, SSE42 info, AVX info]"

text \<open>
  The sixteen bytes of one identification result: the little-endian bytes of its
  registers in the order reg0, reg1, reg2, reg3.
\<close>

definition block16 :: "s32 \<times> s32 \<times> s32 \<times> s32 \<Rightarrow> u8 list" where
  "block16 r = (case r of (a, b, c, d) \<Rightarrow> le_bytes a @ le_bytes b @ le_bytes c @ le_bytes d)"

definition regs_of :: "s32 \<times> s32 \<times> s32 \<times> s32 \<Rightarrow> regs" where
  "regs_of r = (case r of (a, b, c, d) \<Rightarrow> [a, b, c, d])"

text \<open>The snapshot with every field zero.\<close>

definition zero_corinfo :: corinfo where
  "zero_corinfo =
     \<lparr>CpuCount = 0, CpuFrequency = 0,
      VendorString = replicate 12 0, BrandString = replicate 48 0,
      MMX = 0, SSE = 0, SSE2 = 0, SSE3 = 0, SSE41 = 0, SSE42 = 0, AVX = 0,
      RamSize = 0, RamFree = 0, RamUsage = 0\<rparr>"

text \<open>
  A snapshot after the identification phase, as the specification describes it: the
  vendor identifier from input code 0 (register 2, register 4, register 3), the brand
  string from the three extended codes, and the seven flags from input code 1.
\<close>

definition identified :: "processor \<Rightarrow> corinfo \<Rightarrow> corinfo" where
  "identified hw info =
     (case hw 0x00000000 of (a0, b0, c0, d0) \<Rightarrow>
      case hw 0x00000001 of (a1, b1, c1, d1) \<Rightarrow>
        info\<lparr>VendorString := le_bytes b0 @ le_bytes d0 @ le_bytes c0,
             BrandString :=
               block16 (hw 0x80000002) @ block16 (hw 0x80000003) @ block16 (hw 0x80000004),
             MMX := of_bool (bit d1 23),
             SSE := of_bool (bit d1 25),
             SSE2 := of_bool (bit d1 26),
             SSE3 := of_bool (bit c1 0),
             SSE41 := of_bool (bit c1 19),
             SSE42 := of_bool (bit c1 20),
             AVX := of_bool (bit c1 28)\<rparr>)"

text \<open>The identification calls of one collection, in order.\<close>

definition identification_calls :: "event list" where
  "identification_calls =
     [Ev_cpuid 0x00000000, Ev_cpuid 0x80000002, Ev_cpuid 0x80000003, Ev_cpuid 0x80000004,
      Ev_cpuid 0x00000001]"

text \<open>The lines of a file, as successive calls of \<^verbatim>\<open>getline\<close> return them.\<close>

function file_lines :: "string \<Rightarrow> string list" where
  "file_lines f = (case getline f of None \<Rightarrow> [] | Some (line, rest) \<Rightarrow> line # file_lines rest)"
  by pat_completeness auto
termination
  by (relation "measure length") (auto simp add: getline_shorter)

text \<open>
  The specification's reading of the frequency line: the integer parsed immediately
  after the colon.
\<close>

definition integer_after_colon :: "string \<Rightarrow> int" where
  "integer_after_colon line =
     atoi_value (drop 1 (dropWhile (\<lambda>x. x \<noteq> CHR '':'') (c_string line)))"

text \<open>How many calls of \<^verbatim>\<open>getline\<close> a list of calls holds.\<close>

definition getline_calls :: "event list \<Rightarrow> nat" where
  "getline_calls calls = length (filter (\<lambda>e. e = Ev_getline) calls)"

section \<open>Example hosts\<close>

text \<open>
  A processor that answers input code 0 with the vendor tag \<^verbatim>\<open>GenuineIntel\<close>, the
  extended codes with the brand \<^verbatim>\<open>Intel(R) Core(TM) i7-8700K CPU @ 3.70GHz\<close>, and input
  code 1 with feature words that have MMX, SSE, SSE2, SSE3 and SSE4.1 but neither
  SSE4.2 nor AVX.
\<close>

definition example_processor :: processor where
  "example_processor c =
     (if c = 0x00000000 then (0x16, 0x756e6547, 0x6c65746e, 0x49656e69)
      else if c = 0x00000001 then (0x000906EA, 0x00100800, 0x0008E3FD, 0xBFEBFBFF)
      else if c = 0x80000002 then (0x65746e49, 0x2952286c, 0x726f4320, 0x4d542865)
      else if c = 0x80000003 then (0x37692029, 0x3037382d, 0x43204b30, 0x40205550)
      else if c = 0x80000004 then (0x372e3320, 0x7a484730, 0, 0)
      else (0, 0, 0, 0))"

definition example_snapshot :: corinfo where
  "example_snapshot =
     zero_corinfo\<lparr>VendorString := map of_char ''GenuineIntel'',
                  BrandString :=
                    map of_char ''Intel(R) Core(TM) i7-8700K CPU @ 3.70GHz'' @ replicate 8 0,
                  MMX := 1, SSE := 1, SSE2 := 1, SSE3 := 1, SSE41 := 1, SSE42 := 0, AVX := 0\<rparr>"

text \<open>
  A Unix-like host with 16 GiB of memory, half of it free, eight processors and a
  pseudo-file in the kernel's format. With \<^verbatim>\<open>RamFree = 8388608\<close> and
  \<^verbatim>\<open>RamSize = 16777216\<close> every step of the \<^verbatim>\<open>float\<close> expression is exact:
  \<^verbatim>\<open>100 - 0.5 * 100 = 50\<close>.
\<close>

definition example_cpuinfo :: string where
  "example_cpuinfo =
     ''processor'' @ [CHR 0x09] @ '': 0'' @ [CHR 0x0A] @
     ''vendor_id'' @ [CHR 0x09] @ '': GenuineIntel'' @ [CHR 0x0A] @
     ''cpu MHz'' @ [CHR 0x09, CHR 0x09] @ '': 3700.000'' @ [CHR 0x0A] @
     ''cache size'' @ [CHR 0x09] @ '': 12288 KB'' @ [CHR 0x0A]"

definition example_linux :: linux_host where
  "example_linux =
     \<lparr>lx_processor = example_processor,
      lx_sysinfo = Some \<lparr>totalram = 17179869184, freeram = 8589934592\<rparr>,
      lx_cpuinfo = Some example_cpuinfo,
      lx_nprocessors_onln = 8\<rparr>"

text \<open>The same host when \<^verbatim>\<open>sysinfo\<close> fails, and when the pseudo-file cannot be opened.\<close>

definition example_linux_no_sysinfo :: linux_host where
  "example_linux_no_sysinfo = example_linux\<lparr>lx_sysinfo := None\<rparr>"

definition example_linux_no_cpuinfo :: linux_host where
  "example_linux_no_cpuinfo = example_linux\<lparr>lx_cpuinfo := None\<rparr>"

text \<open>The same host with a pseudo-file that has no frequency line.\<close>

definition example_linux_no_marker :: linux_host where
  "example_linux_no_marker =
     example_linux\<lparr>lx_cpuinfo := Some (''processor'' @ [CHR 0x09] @ '': 0'' @ [CHR 0x0A])\<rparr>"

text \<open>The same host with a frequency line whose number follows the colon directly.\<close>

definition example_linux_no_space :: linux_host where
  "example_linux_no_space =
     example_linux\<lparr>lx_cpuinfo := Some (''cpu MHz:2400'' @ [CHR 0x0A])\<rparr>"

text \<open>A registry-based host, and the same host when the registry key cannot be opened.\<close>

definition example_win :: win_host where
  "example_win =
     \<lparr>w_processor = example_processor,
      w_dwNumberOfProcessors = 8,
      w_GlobalMemoryStatusEx =
        Some \<lparr>ullTotalPhys = 17179869184, ullAvailPhys = 8589934592, dwMemoryLoad = 50\<rparr>,
      w_RegOpenKeyEx = 0,
      w_RegQueryValueEx = Some 3700\<rparr>"

definition example_win_no_key :: win_host where
  "example_win_no_key = example_win\<lparr>w_RegOpenKeyEx := 2\<rparr>"

text \<open>What the collection stores on the Unix-like example host.\<close>

definition example_result :: corinfo where
  "example_result =
     example_snapshot\<lparr>CpuCount := 8, CpuFrequency := 3700, RamSize := 16777216,
                     RamFree := 8388608, RamUsage := 50\<rparr>"


section \<open>Properties of the register decoder\<close>

declare vendor_loop.simps [simp del] brand_inner.simps [simp del]
  brand_loop.simps [simp del] zero_loop.simps [simp del] scan_loop.simps [simp del]

lemma ff_mask: "(0xFF :: 32 word) = mask 8"
  by (simp add: mask_eq_exp_minus_1)

lemma shift_byte_drop: "n \<le> 24 \<Longrightarrow> shift_byte r n = ucast (drop_bit n r)"
  unfolding shift_byte_def ff_mask
  by (rule bit_word_eqI) (auto simp add: bit_simps)

lemma shift_bit_of_bool: "n < 32 \<Longrightarrow> shift_bit r n = of_bool (bit r n)"
  unfolding shift_bit_def
  by (rule bit_word_eqI) (auto simp add: bit_simps)

lemma length_le_bytes [simp]: "length (le_bytes w) = 4"
  by (simp add: le_bytes_def)

lemma le_bytes_join:
  "push_bit 24 (ucast (le_bytes w ! 3)) OR push_bit 16 (ucast (le_bytes w ! 2)) OR
   push_bit 8 (ucast (le_bytes w ! 1)) OR ucast (le_bytes w ! 0) = w"
proof (rule bit_word_eqI)
  fix n :: nat
  assume "n < LENGTH(32)"
  then consider "n < 8" | "8 \<le> n" "n < 16" | "16 \<le> n" "n < 24" | "24 \<le> n" "n < 32"
    by fastforce
  then show "bit (push_bit 24 (ucast (le_bytes w ! 3)) OR push_bit 16 (ucast (le_bytes w ! 2)) OR
   push_bit 8 (ucast (le_bytes w ! 1)) OR (ucast (le_bytes w ! 0) :: 32 word)) n = bit w n"
    by cases (auto simp add: le_bytes_def bit_simps)
qed

lemma vendor_string_length:
  "length s = 12 \<Longrightarrow> \<exists>v. vendor_string cpu s = Inr v \<and> length v = 12"
  unfolding vendor_string_def
  apply (subst vendor_loop.simps, simp add: store_byte_def and_then_def)
  apply (subst vendor_loop.simps, simp add: store_byte_def and_then_def)
  apply (subst vendor_loop.simps, simp add: store_byte_def and_then_def)
  apply (subst vendor_loop.simps, simp add: store_byte_def and_then_def)
  apply (subst vendor_loop.simps, simp)
  done

lemma vendor_string_eq:
  "length s = 12 \<Longrightarrow>
   vendor_string [w0, w1, w2, w3] s = Inr (le_bytes w1 @ le_bytes w3 @ le_bytes w2)"
  unfolding vendor_string_def
  apply (subst vendor_loop.simps, simp add: store_byte_def and_then_def)
  apply (subst vendor_loop.simps, simp add: store_byte_def and_then_def)
  apply (subst vendor_loop.simps, simp add: store_byte_def and_then_def)
  apply (subst vendor_loop.simps, simp add: store_byte_def and_then_def)
  apply (subst vendor_loop.simps, simp add: shift_byte_drop le_bytes_def)
  apply (rule nth_equalityI, simp)
  apply (auto simp add: nth_Cons' nth_list_update)
  done

lemma brand_inner_unrolled:
  "offset + 16 \<le> length s \<Longrightarrow> \<exists>s'. brand_inner cpu offset 0 s = Inr s' \<and> length s' = length s"
  apply (subst brand_inner.simps, simp add: store_byte_def and_then_def)
  apply (subst brand_inner.simps, simp add: store_byte_def and_then_def)
  apply (subst brand_inner.simps, simp add: store_byte_def and_then_def)
  apply (subst brand_inner.simps, simp add: store_byte_def and_then_def)
  apply (subst brand_inner.simps, simp)
  done

lemma brand_inner_eq:
  "offset + 16 \<le> length s \<Longrightarrow>
   brand_inner [a, b, c, d] offset 0 s =
     Inr (take offset s @ le_bytes a @ le_bytes b @ le_bytes c @ le_bytes d @ drop (offset + 16) s)"
  apply (subst brand_inner.simps, simp add: store_byte_def and_then_def)
  apply (subst brand_inner.simps, simp add: store_byte_def and_then_def)
  apply (subst brand_inner.simps, simp add: store_byte_def and_then_def)
  apply (subst brand_inner.simps, simp add: store_byte_def and_then_def)
  apply (subst brand_inner.simps, simp add: shift_byte_drop le_bytes_def)
  apply (rule nth_equalityI, simp)
  apply (auto simp add: nth_Cons' nth_list_update nth_append)
  done

lemma length_block16 [simp]: "length (block16 r) = 16"
  by (simp add: block16_def split: prod.splits)

lemma brand_step:
  "offset + 16 \<le> length s \<Longrightarrow>
   and_then (brand_inner (regs_of r) offset 0 s) k =
     k (take offset s @ block16 r @ drop (offset + 16) s)"
  by (cases r) (simp add: brand_inner_eq block16_def regs_of_def and_then_def)

lemma cpuid_eq: "cpuid hw c calls = (regs_of (hw c), calls @ [Ev_cpuid c])"
  by (simp add: cpuid_def regs_of_def split: prod.splits)

lemma brand_string_eq:
  assumes "length s = 48"
  shows "brand_string hw cpu s calls =
     Inr (regs_of (hw 0x80000004),
          block16 (hw 0x80000002) @ block16 (hw 0x80000003) @ block16 (hw 0x80000004),
          calls @ [Ev_cpuid 0x80000002, Ev_cpuid 0x80000003, Ev_cpuid 0x80000004])"
  unfolding brand_string_def
  apply (subst brand_loop.simps, simp add: cpuid_eq commands_def brand_step assms)
  apply (subst brand_loop.simps, simp add: cpuid_eq commands_def brand_step assms)
  apply (subst brand_loop.simps, simp add: cpuid_eq commands_def brand_step assms)
  apply (subst brand_loop.simps, simp)
  done

lemma brand_string_length:
  assumes "length s = 48"
  shows "\<exists>cpu' b calls'. brand_string hw cpu s calls = Inr (cpu', b, calls') \<and> length b = 48"
  using assms by (simp add: brand_string_eq)

lemma extensions_eq:
  "extensions hw cpu info calls =
     (regs_of (hw 1),
      info\<lparr>MMX := of_bool (bit (regs_of (hw 1) ! 3) 23),
           SSE := of_bool (bit (regs_of (hw 1) ! 3) 25),
           SSE2 := of_bool (bit (regs_of (hw 1) ! 3) 26),
           SSE3 := of_bool (bit (regs_of (hw 1) ! 2) 0),
           SSE41 := of_bool (bit (regs_of (hw 1) ! 2) 19),
           SSE42 := of_bool (bit (regs_of (hw 1) ! 2) 20),
           AVX := of_bool (bit (regs_of (hw 1) ! 2) 28)\<rparr>,
      calls @ [Ev_cpuid 1])"
  by (simp add: extensions_def cpuid_eq shift_bit_of_bool)

lemma zero_loop_eq:
  "i \<le> n \<Longrightarrow> length a = n \<Longrightarrow> zero_loop n i a = take i a @ replicate (n - i) 0"
proof (induction n i a rule: zero_loop.induct)
  case (1 n i a)
  show ?case
  proof (cases "i < n")
    case True
    then have "zero_loop n i a = zero_loop n (i + 1) (a[i := 0])"
      by (subst zero_loop.simps) simp
    also have "\<dots> = take (i + 1) (a[i := 0]) @ replicate (n - (i + 1)) 0"
      using True 1 by simp
    also have "\<dots> = take i a @ replicate (n - i) 0"
      using True 1(3)
      by (simp add: take_Suc_conv_app_nth replicate_app_Cons_same Suc_diff_Suc
          flip: replicate_Suc)
    finally show ?thesis .
  next
    case False
    with 1 show ?thesis by (subst zero_loop.simps) simp
  qed
qed

text \<open>The decoders do store outside a buffer that is too short.\<close>

lemma vendor_string_short_buffer:
  "vendor_string cpu (replicate 11 0) = Inl Out_of_bounds_write"
  unfolding vendor_string_def
  apply (subst vendor_loop.simps, simp add: store_byte_def and_then_def)
  apply (subst vendor_loop.simps, simp add: store_byte_def and_then_def)
  apply (subst vendor_loop.simps, simp add: store_byte_def and_then_def)
  apply (subst vendor_loop.simps, simp add: store_byte_def and_then_def)
  done

text \<open>
  Claim C1. For every four registers \<open>w0, w1, w2, w3\<close>, \<^verbatim>\<open>__vendor_string\<close> writes a
  12-byte identifier: bytes 0-3 are the little-endian bytes of register 2 (\<open>w1\<close>), bytes
  4-7 those of register 4 (\<open>w3\<close>), bytes 8-11 those of register 3 (\<open>w2\<close>). Registers
  that hold the bytes of \<^verbatim>\<open>GenuineIntel\<close> in this order decode to that string.
\<close>

theorem vendor_string_interleave:
  assumes "length string = 12"
  shows "vendor_string [w0, w1, w2, w3] string = Inr (le_bytes w1 @ le_bytes w3 @ le_bytes w2) \<and>
         vendor_string [w0, 0x756e6547, 0x6c65746e, 0x49656e69] string =
           Inr (map of_char ''GenuineIntel'')"
  using assms by (simp add: vendor_string_eq) (simp add: le_bytes_def)

text \<open>The same at the registers of another vendor tag.\<close>

theorem vendor_string_interleave_witness:
  "length (replicate 12 (0 :: u8)) = 12 \<and>
   vendor_string [0x16, 0x68747541, 0x444d4163, 0x69746e65] (replicate 12 0) =
     Inr (map of_char ''AuthenticAMD'')"
  using vendor_string_interleave [of "replicate 12 0" "0x16" "0x68747541" "0x444d4163" "0x69746e65"]
  by (simp add: le_bytes_def)

lemma replicate_8: "replicate 8 x = [x, x, x, x, x, x, x, x]"
  by (simp add: numeral_eq_Suc)

text \<open>
  Claim C2. For every result \<open>(w0, w1, w2, w3)\<close> of the identification call with input
  code 1, \<^verbatim>\<open>__extensions\<close> sets each flag to the value of one bit: MMX is bit 23 of
  \<open>w3\<close>, SSE bit 25 of \<open>w3\<close>, SSE2 bit 26 of \<open>w3\<close>, SSE3 bit 0 of \<open>w2\<close>, SSE4.1 bit 19
  of \<open>w2\<close>, SSE4.2 bit 20 of \<open>w2\<close>, AVX bit 28 of \<open>w2\<close>. It makes that one call and
  changes no other field. With one of these bits alone set in registers that are zero
  otherwise, that flag is 1 and the six others are 0.
\<close>

theorem extensions_single_bits:
  assumes "hw 0x00000001 = (w0, w1, w2, w3)"
  shows "extensions hw cpu info calls =
           ([w0, w1, w2, w3],
            info\<lparr>MMX := of_bool (bit w3 23), SSE := of_bool (bit w3 25),
                 SSE2 := of_bool (bit w3 26), SSE3 := of_bool (bit w2 0),
                 SSE41 := of_bool (bit w2 19), SSE42 := of_bool (bit w2 20),
                 AVX := of_bool (bit w2 28)\<rparr>,
            calls @ [Ev_cpuid 0x00000001]) \<and>
         flags (fst (snd (extensions (\<lambda>c. (0, 0, 0, 0x00800000)) cpu info calls))) = [1, 0, 0, 0, 0, 0, 0] \<and>
         flags (fst (snd (extensions (\<lambda>c. (0, 0, 0, 0x02000000)) cpu info calls))) = [0, 1, 0, 0, 0, 0, 0] \<and>
         flags (fst (snd (extensions (\<lambda>c. (0, 0, 0, 0x04000000)) cpu info calls))) = [0, 0, 1, 0, 0, 0, 0] \<and>
         flags (fst (snd (extensions (\<lambda>c. (0, 0, 0x00000001, 0)) cpu info calls))) = [0, 0, 0, 1, 0, 0, 0] \<and>
         flags (fst (snd (extensions (\<lambda>c. (0, 0, 0x00080000, 0)) cpu info calls))) = [0, 0, 0, 0, 1, 0, 0] \<and>
         flags (fst (snd (extensions (\<lambda>c. (0, 0, 0x00100000, 0)) cpu info calls))) = [0, 0, 0, 0, 0, 1, 0] \<and>
         flags (fst (snd (extensions (\<lambda>c. (0, 0, 0x10000000, 0)) cpu info calls))) = [0, 0, 0, 0, 0, 0, 1]"
  using assms by (simp add: extensions_eq regs_of_def flags_def)

text \<open>At the example processor: five flags set, SSE4.2 and AVX clear.\<close>

theorem extensions_single_bits_witness:
  "example_processor 0x00000001 = (0x000906EA, 0x00100800, 0x0008E3FD, 0xBFEBFBFF) \<and>
   flags (fst (snd (extensions example_processor [] zero_corinfo []))) = [1, 1, 1, 1, 1, 0, 0] \<and>
   snd (snd (extensions example_processor [] zero_corinfo [])) = [Ev_cpuid 0x00000001]"
proof -
  have h: "example_processor 0x00000001 = (0x000906EA, 0x00100800, 0x0008E3FD, 0xBFEBFBFF)"
    by (simp add: example_processor_def)
  show ?thesis
    using extensions_single_bits
      [where hw = example_processor and cpu = "[]" and info = zero_corinfo and calls = "[]", OF h] h
    by (simp add: flags_def)
qed

text \<open>
  Claim C3. \<^verbatim>\<open>__brand_string\<close> makes exactly three identification calls, with the
  input codes 0x80000002, 0x80000003, 0x80000004 in this order. For every three results
  it produces exactly 48 bytes: each call gives the 16 little-endian bytes of its
  registers in the order reg0, reg1, reg2, reg3, and the three blocks stand at the
  offsets 0, 16 and 32 in call order.
\<close>

theorem brand_string_blocks:
  assumes "length string = 48"
    and "hw 0x80000002 = (a0, a1, a2, a3)"
    and "hw 0x80000003 = (b0, b1, b2, b3)"
    and "hw 0x80000004 = (c0, c1, c2, c3)"
  shows "\<exists>brand.
           brand_string hw cpu string calls =
             Inr ([c0, c1, c2, c3], brand,
                  calls @ [Ev_cpuid 0x80000002, Ev_cpuid 0x80000003, Ev_cpuid 0x80000004]) \<and>
           length brand = 48 \<and>
           brand =
             (le_bytes a0 @ le_bytes a1 @ le_bytes a2 @ le_bytes a3) @
             (le_bytes b0 @ le_bytes b1 @ le_bytes b2 @ le_bytes b3) @
             (le_bytes c0 @ le_bytes c1 @ le_bytes c2 @ le_bytes c3) \<and>
           take 16 brand = le_bytes a0 @ le_bytes a1 @ le_bytes a2 @ le_bytes a3 \<and>
           take 16 (drop 16 brand) = le_bytes b0 @ le_bytes b1 @ le_bytes b2 @ le_bytes b3 \<and>
           take 16 (drop 32 brand) = le_bytes c0 @ le_bytes c1 @ le_bytes c2 @ le_bytes c3"
  using assms by (simp add: brand_string_eq block16_def regs_of_def)

text \<open>At the example processor the 48 bytes are the brand text and eight zero bytes.\<close>

theorem brand_string_blocks_witness:
  "length (replicate 48 (0 :: u8)) = 48 \<and>
   example_processor 0x80000002 = (0x65746e49, 0x2952286c, 0x726f4320, 0x4d542865) \<and>
   example_processor 0x80000003 = (0x37692029, 0x3037382d, 0x43204b30, 0x40205550) \<and>
   example_processor 0x80000004 = (0x372e3320, 0x7a484730, 0, 0) \<and>
   brand_string example_processor [0x16, 0x756e6547, 0x6c65746e, 0x49656e69] (replicate 48 0)
       [Ev_cpuid 0x00000000] =
     Inr ([0x372e3320, 0x7a484730, 0, 0],
          map of_char ''Intel(R) Core(TM) i7-8700K CPU @ 3.70GHz'' @ replicate 8 0,
          [Ev_cpuid 0x00000000, Ev_cpuid 0x80000002, Ev_cpuid 0x80000003, Ev_cpuid 0x80000004])"
proof -
  have h2: "example_processor 0x80000002 = (0x65746e49, 0x2952286c, 0x726f4320, 0x4d542865)"
    and h3: "example_processor 0x80000003 = (0x37692029, 0x3037382d, 0x43204b30, 0x40205550)"
    and h4: "example_processor 0x80000004 = (0x372e3320, 0x7a484730, 0, 0)"
    by (simp_all add: example_processor_def)
  have len: "length (replicate 48 (0 :: u8)) = 48"
    by simp
  from brand_string_blocks
    [where hw = example_processor and cpu = "[0x16, 0x756e6547, 0x6c65746e, 0x49656e69]"
       and calls = "[Ev_cpuid 0x00000000]", OF len h2 h3 h4]
  have "brand_string example_processor [0x16, 0x756e6547, 0x6c65746e, 0x49656e69] (replicate 48 0)
       [Ev_cpuid 0x00000000] =
     Inr ([0x372e3320, 0x7a484730, 0, 0],
          map of_char ''Intel(R) Core(TM) i7-8700K CPU @ 3.70GHz'' @ replicate 8 0,
          [Ev_cpuid 0x00000000, Ev_cpuid 0x80000002, Ev_cpuid 0x80000003, Ev_cpuid 0x80000004])"
    by (simp add: le_bytes_def replicate_8)
  with h2 h3 h4 len show ?thesis
    by blast
qed

text \<open>
  Claim C10. For all register inputs, every store of \<^verbatim>\<open>__vendor_string\<close> is inside
  the 12-byte vendor buffer and every store of \<^verbatim>\<open>__brand_string\<close> inside the 48-byte
  brand buffer: on a well-formed snapshot neither decoder faults, the buffers keep
  their lengths, and putting the two old buffers back gives the old snapshot, so no
  other field has changed.
\<close>

theorem decoders_write_in_bounds:
  assumes "corinfo_wf info"
  shows "\<exists>v b cpu' calls'.
           vendor_string cpu (VendorString info) = Inr v \<and> length v = 12 \<and>
           brand_string hw cpu (BrandString info) calls = Inr (cpu', b, calls') \<and> length b = 48 \<and>
           (info\<lparr>VendorString := v, BrandString := b\<rparr>)
               \<lparr>VendorString := VendorString info, BrandString := BrandString info\<rparr> = info"
proof -
  from assms have lv: "length (VendorString info) = 12" and lb: "length (BrandString info) = 48"
    by (simp_all add: corinfo_wf_def)
  from vendor_string_length [OF lv] obtain v
    where v: "vendor_string cpu (VendorString info) = Inr v" "length v = 12"
    by blast
  from brand_string_length [OF lb] obtain cpu' b calls'
    where b: "brand_string hw cpu (BrandString info) calls = Inr (cpu', b, calls')" "length b = 48"
    by blast
  from v b show ?thesis
    by simp
qed

text \<open>On the example snapshot, with the registers of another vendor tag.\<close>

theorem decoders_write_in_bounds_witness:
  "corinfo_wf example_snapshot \<and>
   vendor_string [0x16, 0x68747541, 0x444d4163, 0x69746e65] (VendorString example_snapshot) =
     Inr (map of_char ''AuthenticAMD'') \<and>
   (\<exists>cpu' b calls'.
      brand_string example_processor [0x16, 0x68747541, 0x444d4163, 0x69746e65]
        (BrandString example_snapshot) [] = Inr (cpu', b, calls') \<and>
      length b = 48)"
proof -
  have wf: "corinfo_wf example_snapshot"
    by (simp add: corinfo_wf_def example_snapshot_def zero_corinfo_def)
  have "vendor_string [0x16, 0x68747541, 0x444d4163, 0x69746e65] (VendorString example_snapshot) =
     Inr (map of_char ''AuthenticAMD'')"
    using wf by (simp add: vendor_string_eq corinfo_wf_def le_bytes_def)
  with wf
    decoders_write_in_bounds
      [where cpu = "[0x16, 0x68747541, 0x444d4163, 0x69746e65]" and hw = example_processor
         and calls = "[]", OF wf]
  show ?thesis
    by auto
qed

section \<open>Properties of single-precision arithmetic\<close>

lemma rhe_of_int [simp]: "round_half_even (of_int n) = n"
  by (simp add: round_half_even_def)

lemma rhe_mono: "x \<le> y \<Longrightarrow> round_half_even x \<le> round_half_even y"
proof -
  assume xy: "x \<le> y"
  have fl: "\<lfloor>x\<rfloor> \<le> \<lfloor>y\<rfloor>" using xy by (rule floor_mono)
  show ?thesis
  proof (cases "\<lfloor>x\<rfloor> = \<lfloor>y\<rfloor>")
    case True
    with xy show ?thesis
      by (auto simp add: round_half_even_def Let_def)
  next
    case False
    with fl have "\<lfloor>x\<rfloor> + 1 \<le> \<lfloor>y\<rfloor>" by simp
    moreover have "round_half_even x \<le> \<lfloor>x\<rfloor> + 1"
      by (simp add: round_half_even_def Let_def)
    moreover have "\<lfloor>y\<rfloor> \<le> round_half_even y"
      by (simp add: round_half_even_def Let_def)
    ultimately show ?thesis by linarith
  qed
qed

lemma rhe_error: "\<bar>of_int (round_half_even x) - x\<bar> \<le> 1 / 2"
  unfolding round_half_even_def Let_def
  by (auto simp add: abs_le_iff)

lemma exponent_bounds:
  assumes "0 < r"
  shows "2 powr of_int (exponent r) \<le> r" and "r < 2 powr of_int (exponent r + 1)"
proof -
  have "of_int (exponent r) \<le> log 2 r"
    using assms by (simp add: exponent_def)
  then show "2 powr of_int (exponent r) \<le> r"
    using assms by (simp add: le_log_iff)
  have "log 2 r < of_int (exponent r + 1)"
    using assms by (simp add: exponent_def)
  then show "r < 2 powr of_int (exponent r + 1)"
    using assms by (simp add: log_less_iff)
qed

lemma exponent_eq:
  assumes "0 < r" and "2 powr of_int e \<le> r" and "r < 2 powr of_int (e + 1)"
  shows "exponent r = e"
proof -
  have "of_int e \<le> log 2 r"
    using assms by (simp add: le_log_iff)
  moreover have "log 2 r < of_int e + 1"
    using assms by (simp add: log_less_iff)
  ultimately show ?thesis
    using assms(1) unfolding exponent_def by (simp add: floor_unique)
qed

lemma exponent_mono:
  assumes "0 < a" and "a \<le> b"
  shows "exponent a \<le> exponent b"
  using assms unfolding exponent_def by (simp add: floor_mono)


lemma round32_pos_form:
  assumes "0 < r"
  defines "u \<equiv> (2 :: real) powr of_int (exponent r - 23)"
  shows "round32 r = of_int (round_half_even (r / u)) * u"
    and "0 < u"
    and "2 ^ 23 \<le> r / u" and "r / u < 2 ^ 24"
    and "2 ^ 23 \<le> round_half_even (r / u)" and "round_half_even (r / u) \<le> 2 ^ 24"
proof -
  show u: "0 < u" by (simp add: u_def)
  show "round32 r = of_int (round_half_even (r / u)) * u"
    using assms by (simp add: round32_def Let_def)
  have e: "(2 :: real) powr of_int (exponent r) = 2 ^ 23 * u"
    by (simp add: u_def powr_diff)
  have e1: "(2 :: real) powr of_int (exponent r + 1) = 2 ^ 24 * u"
    by (simp add: u_def powr_diff powr_add)
  from exponent_bounds [OF assms(1)] e e1 have "2 ^ 23 * u \<le> r" and "r < 2 ^ 24 * u"
    by simp_all
  with u show lo: "2 ^ 23 \<le> r / u" and hi: "r / u < 2 ^ 24"
    by (simp_all add: field_simps)
  from rhe_mono [OF lo] show "2 ^ 23 \<le> round_half_even (r / u)"
    using rhe_of_int [of "2 ^ 23"] by simp
  from rhe_mono [of "r / u" "2 ^ 24"] hi show "round_half_even (r / u) \<le> 2 ^ 24"
    using rhe_of_int [of "2 ^ 24"] by simp
qed

lemma round32_zero [simp]: "round32 0 = 0"
  by (simp add: round32_def)

lemma round32_pos_bounds:
  assumes "0 < r"
  shows "2 powr of_int (exponent r) \<le> round32 r" and "round32 r \<le> 2 powr of_int (exponent r + 1)"
proof -
  define u :: real where "u = 2 powr of_int (exponent r - 23)"
  note f = round32_pos_form [OF assms, folded u_def]
  have e: "(2 :: real) powr of_int (exponent r) = 2 ^ 23 * u"
    by (simp add: u_def powr_diff)
  have e1: "(2 :: real) powr of_int (exponent r + 1) = 2 ^ 24 * u"
    by (simp add: u_def powr_diff powr_add)
  have "(of_int (2 ^ 23) :: real) \<le> of_int (round_half_even (r / u))"
    using f(5) by (simp only: of_int_le_iff)
  then have "(2 ^ 23 :: real) \<le> of_int (round_half_even (r / u))"
    by simp
  then show "2 powr of_int (exponent r) \<le> round32 r"
    unfolding e f(1) using f(2) by (simp add: mult_right_mono)
  have "of_int (round_half_even (r / u)) \<le> (of_int (2 ^ 24) :: real)"
    using f(6) by (simp only: of_int_le_iff)
  then have "of_int (round_half_even (r / u)) \<le> (2 ^ 24 :: real)"
    by simp
  then show "round32 r \<le> 2 powr of_int (exponent r + 1)"
    unfolding e1 f(1) using f(2) by (simp add: mult_right_mono)
qed

lemma round32_nonneg: "0 \<le> r \<Longrightarrow> 0 \<le> round32 r"
proof (cases "r = 0")
  case False
  assume "0 \<le> r"
  with False have "0 < r" by simp
  from round32_pos_bounds(1) [OF this] powr_gt_zero [of 2 "of_int (exponent r)"] show ?thesis
    by linarith
qed simp

lemma round32_mono:
  assumes "0 \<le> a" and "a \<le> b"
  shows "round32 a \<le> round32 b"
proof (cases "a = 0")
  case True
  with assms show ?thesis by (simp add: round32_nonneg)
next
  case False
  with assms have a: "0 < a" and b: "0 < b" by simp_all
  show ?thesis
  proof (cases "exponent a = exponent b")
    case True
    define u :: real where "u = 2 powr of_int (exponent a - 23)"
    have u: "0 < u" by (simp add: u_def)
    have "a / u \<le> b / u"
      using assms(2) u by (simp add: divide_right_mono)
    from rhe_mono [OF this] have "(of_int (round_half_even (a / u)) :: real) \<le> of_int (round_half_even (b / u))"
      by simp
    then have "of_int (round_half_even (a / u)) * u \<le> of_int (round_half_even (b / u)) * u"
      using u by (simp add: mult_right_mono)
    then show ?thesis
      using a b True by (simp add: round32_def Let_def u_def)
  next
    case False
    with exponent_mono [OF a assms(2)] have "exponent a + 1 \<le> exponent b"
      by simp
    then have "(2 :: real) powr of_int (exponent a + 1) \<le> 2 powr of_int (exponent b)"
      by (simp only: powr_le_cancel_iff of_int_le_iff)
    with round32_pos_bounds(2) [OF a] round32_pos_bounds(1) [OF b] show ?thesis
      by linarith
  qed
qed

lemma round32_exact:
  assumes "0 < r" and "2 powr of_int e \<le> r" and "r < 2 powr of_int (e + 1)"
    and "r = of_int k * 2 powr of_int (e - 23)"
  shows "round32 r = r"
proof -
  define u :: real where "u = 2 powr of_int (e - 23)"
  have u: "0 < u" by (simp add: u_def)
  have e: "exponent r = e"
    using assms(1-3) by (rule exponent_eq)
  have "r / u = of_int k"
    using assms(4) u by (simp add: u_def)
  moreover have "round32 r = of_int (round_half_even (r / u)) * u"
    using assms(1) by (simp add: round32_def Let_def e u_def)
  ultimately show ?thesis
    using assms(4) by (simp add: u_def)
qed

lemma round32_rel:
  assumes "0 \<le> r"
  shows "r - r / 2 ^ 24 \<le> round32 r" and "round32 r \<le> r + r / 2 ^ 24"
proof -
  have "\<bar>round32 r - r\<bar> \<le> r / 2 ^ 24"
  proof (cases "r = 0")
    case True
    then show ?thesis by simp
  next
    case False
    with assms have r: "0 < r" by simp
    define u :: real where "u = 2 powr of_int (exponent r - 23)"
    note f = round32_pos_form [OF r, folded u_def]
    have "\<bar>of_int (round_half_even (r / u)) - r / u\<bar> \<le> 1 / 2"
      by (rule rhe_error)
    then have "\<bar>of_int (round_half_even (r / u)) - r / u\<bar> * u \<le> 1 / 2 * u"
      using f(2) by (simp add: mult_right_mono)
    moreover have "round32 r - r = (of_int (round_half_even (r / u)) - r / u) * u"
      using f(2) by (simp add: f(1) left_diff_distrib)
    then have "\<bar>round32 r - r\<bar> = \<bar>of_int (round_half_even (r / u)) - r / u\<bar> * u"
      using f(2) by (simp add: abs_mult)
    ultimately have err: "\<bar>round32 r - r\<bar> \<le> u / 2"
      by simp
    from f(3) f(2) have "u * 2 ^ 23 \<le> r"
      by (simp add: field_simps)
    then have "u / 2 \<le> r / 2 ^ 24"
      by simp
    with err show ?thesis
      by linarith
  qed
  then show "r - r / 2 ^ 24 \<le> round32 r" and "round32 r \<le> r + r / 2 ^ 24"
    by linarith+
qed

lemma round32_1: "round32 1 = 1"
  by (rule round32_exact [where e = 0 and k = "2 ^ 23"]) (simp_all add: powr_neg_numeral)

lemma round32_100: "round32 100 = 100"
  by (rule round32_exact [where e = 6 and k = "100 * 2 ^ 17"]) (simp_all add: powr_neg_numeral)

lemma round32_50: "round32 50 = 50"
  by (rule round32_exact [where e = 5 and k = "50 * 2 ^ 18"]) (simp_all add: powr_neg_numeral)

lemma round32_half: "round32 (1 / 2) = 1 / 2"
  by (rule round32_exact [where e = "- 1" and k = "2 ^ 23"]) (simp_all add: powr_neg_numeral)

lemma round32_2_23: "round32 8388608 = 8388608"
  by (rule round32_exact [where e = 23 and k = "2 ^ 23"]) simp_all

lemma round32_2_24: "round32 16777216 = 16777216"
  by (rule round32_exact [where e = 24 and k = "2 ^ 23"]) simp_all

lemma float_of_u32_bounds:
  "0 \<le> float_of_u32 w"
  "w \<noteq> 0 \<Longrightarrow> 1 \<le> float_of_u32 w"
  "v \<le> w \<Longrightarrow> float_of_u32 v \<le> float_of_u32 w"
proof -
  show "0 \<le> float_of_u32 w"
    unfolding float_of_u32_def by (rule round32_nonneg) (rule of_nat_0_le_iff)
  show "1 \<le> float_of_u32 w" if "w \<noteq> 0"
  proof -
    from that have "1 \<le> unat w"
      by (simp add: unat_gt_0 Suc_le_eq)
    then have "real 1 \<le> real (unat w)"
      by (rule of_nat_mono)
    then have "(1 :: real) \<le> real (unat w)"
      by (simp only: of_nat_1)
    from round32_mono [of 1 "real (unat w)"] this show ?thesis
      unfolding float_of_u32_def round32_1 by linarith
  qed
  show "float_of_u32 v \<le> float_of_u32 w" if "v \<le> w"
  proof -
    from that have "unat v \<le> unat w"
      by (simp add: word_le_nat_alt)
    then have "real (unat v) \<le> real (unat w)"
      by (rule of_nat_mono)
    then show ?thesis
      unfolding float_of_u32_def by (rule round32_mono [OF of_nat_0_le_iff])
  qed
qed

lemma usage_steps:
  fixes t f x y :: real
  assumes t: "1 \<le> t" and f: "0 \<le> f" "f \<le> t"
    and x: "t - t / 2 ^ 24 \<le> x" "x \<le> t + t / 2 ^ 24" "1 \<le> x"
    and y: "f - f / 2 ^ 24 \<le> y" "y \<le> f + f / 2 ^ 24" "0 \<le> y" "y \<le> x"
  defines "d \<equiv> round32 (100 - round32 (round32 (y / x) * 100))"
  shows "0 \<le> d" and "d \<le> 100" and "\<bar>d - 100 * (1 - f / t)\<bar> \<le> 1 / 1000"
proof -
  define q0 where "q0 = y / x"
  define q where "q = round32 q0"
  define m where "m = round32 (q * 100)"
  have d: "d = round32 (100 - m)"
    by (simp add: d_def m_def q_def q0_def)
  have q0: "0 \<le> q0" "q0 \<le> 1"
    using x y by (simp_all add: q0_def)
  have q: "0 \<le> q" "q \<le> 1"
    using round32_nonneg [OF q0(1)] round32_mono [OF q0] by (simp_all add: q_def round32_1)
  have m0: "0 \<le> q * 100" "q * 100 \<le> 100"
    using q by simp_all
  have m: "0 \<le> m" "m \<le> 100"
    using round32_nonneg [OF m0(1)] round32_mono [OF m0] by (simp_all add: m_def round32_100)
  have d0: "0 \<le> 100 - m" "100 - m \<le> 100"
    using m by simp_all
  show "0 \<le> d" and "d \<le> 100"
    using round32_nonneg [OF d0(1)] round32_mono [OF d0] by (simp_all add: d round32_100)
  define \<rho> where "\<rho> = f / t"
  have \<rho>: "0 \<le> \<rho>" "\<rho> \<le> 1"
    using t f by (simp_all add: \<rho>_def)
  have "y / x \<le> (f + f / 2 ^ 24) / (t - t / 2 ^ 24)"
    using t x y by (intro frac_le) simp_all
  also have "(f + f / 2 ^ 24) / (t - t / 2 ^ 24) = \<rho> * (16777217 / 16777215)"
    using t by (simp add: \<rho>_def field_simps)
  finally have up: "q0 \<le> \<rho> * (16777217 / 16777215)"
    unfolding q0_def .
  have "\<rho> * (16777215 / 16777217) = (f - f / 2 ^ 24) / (t + t / 2 ^ 24)"
    using t by (simp add: \<rho>_def field_simps)
  also have "\<dots> \<le> y / x"
    using t f x y by (intro frac_le) simp_all
  finally have lo: "\<rho> * (16777215 / 16777217) \<le> q0"
    unfolding q0_def .
  have rq: "q0 - q0 / 16777216 \<le> q" "q \<le> q0 + q0 / 16777216"
    using round32_rel [OF q0(1), folded q_def] by simp_all
  have rm: "q * 100 - q * 100 / 16777216 \<le> m" "m \<le> q * 100 + q * 100 / 16777216"
    using round32_rel [OF m0(1), folded m_def] by simp_all
  have rd: "(100 - m) - (100 - m) / 16777216 \<le> d" "d \<le> (100 - m) + (100 - m) / 16777216"
    using round32_rel [OF d0(1), folded d] by simp_all
  have up': "q0 \<le> \<rho> * 16777217 / 16777215" and lo': "\<rho> * 16777215 / 16777217 \<le> q0"
    using up lo by simp_all
  have q_up: "q \<le> \<rho> + \<rho> / 4000000"
    using up' rq(2) \<rho>(1) by linarith
  have q_lo: "\<rho> - \<rho> / 4000000 \<le> q"
    using lo' rq(1) \<rho>(1) by linarith
  have m_up: "m \<le> 100 * \<rho> + 1 / 10000"
    using q_up rm(2) \<rho> by linarith
  have m_lo: "100 * \<rho> - 1 / 10000 \<le> m"
    using q_lo rm(1) \<rho> by linarith
  have small: "(100 - m) / 16777216 \<le> 1 / 100000"
    using m(1) by simp
  have "d - (100 - 100 * \<rho>) \<le> 1 / 1000"
    using m_lo rd(2) small by linarith
  moreover have "(100 - 100 * \<rho>) - d \<le> 1 / 1000"
    using m_up rd(1) small by linarith
  ultimately show "\<bar>d - 100 * (1 - f / t)\<bar> \<le> 1 / 1000"
    unfolding \<rho>_def by argo
qed

lemma unat_word_of_int_small:
  assumes "0 \<le> k" and "k \<le> 100"
  shows "unat (word_of_int k :: u32) = nat k"
proof -
  have "uint (word_of_int k :: u32) = k"
    using assms by (simp add: uint_word_of_int_eq take_bit_int_eq_self)
  then show ?thesis
    by (simp add: unat_eq_nat_uint)
qed

lemma ram_usage_range:
  assumes "sz \<noteq> 0" and "fr \<le> sz"
  shows "\<exists>u. ram_usage fr sz = Inr u \<and> u \<le> 100 \<and>
           100 * (1 - real (unat fr) / real (unat sz)) - 1 - 1 / 1000 < real (unat u) \<and>
           real (unat u) \<le> 100 * (1 - real (unat fr) / real (unat sz)) + 1 / 1000"
proof -
  define t where "t = real (unat sz)"
  define f where "f = real (unat fr)"
  define x where "x = float_of_u32 sz"
  define y where "y = float_of_u32 fr"
  define d where "d = round32 (100 - round32 (round32 (y / x) * 100))"
  from assms(1) have "1 \<le> unat sz"
    by (simp add: unat_gt_0 Suc_le_eq)
  then have "real 1 \<le> real (unat sz)"
    by (rule of_nat_mono)
  then have t: "1 \<le> t"
    by (simp only: of_nat_1 t_def)
  have f0: "0 \<le> f"
    unfolding f_def by (rule of_nat_0_le_iff)
  from assms(2) have "unat fr \<le> unat sz"
    by (simp add: word_le_nat_alt)
  then have ft: "f \<le> t"
    unfolding f_def t_def by (rule of_nat_mono)
  have xr: "x = round32 t" and yr: "y = round32 f"
    by (simp_all only: x_def y_def t_def f_def float_of_u32_def)
  from t have t0: "0 \<le> t" by simp
  note st = usage_steps [OF t f0 ft
      round32_rel(1) [OF t0, folded xr] round32_rel(2) [OF t0, folded xr]
      float_of_u32_bounds(2) [OF assms(1), folded x_def]
      round32_rel(1) [OF f0, folded yr] round32_rel(2) [OF f0, folded yr]
      float_of_u32_bounds(1) [of fr, folded y_def]
      float_of_u32_bounds(3) [OF assms(2), folded x_def y_def], folded d_def]
  define k where "k = \<lfloor>d\<rfloor>"
  have k: "0 \<le> k" "k \<le> 100"
    using st(1,2) by (simp_all add: k_def floor_le_iff)
  have kd: "of_int k \<le> d" "d < of_int k + 1"
    by (simp_all add: k_def)
  have x0: "x \<noteq> 0"
    using float_of_u32_bounds(2) [OF assms(1)] by (simp add: x_def)
  have "ram_usage fr sz = u32_of_float d"
    using x0 by (simp only: ram_usage_def Let_def x_def [symmetric] y_def [symmetric] d_def if_False)
  also have "\<dots> = Inr (word_of_int k)"
    using st(1,2) by (simp add: u32_of_float_def integral_part_def k_def)
  finally have r: "ram_usage fr sz = Inr (word_of_int k)" .
  have un: "unat (word_of_int k :: u32) = nat k"
    using k by (rule unat_word_of_int_small)
  have le: "(word_of_int k :: u32) \<le> 100"
    using k by (simp add: word_le_nat_alt un)
  have "real (nat k) = of_int k"
    using k(1) by simp
  with un have ru: "real (unat (word_of_int k :: u32)) = of_int k"
    by (simp only:)
  from st(3) have "d - 1 / 1000 \<le> 100 * (1 - f / t)" and "100 * (1 - f / t) \<le> d + 1 / 1000"
    by argo+
  with kd have "100 * (1 - f / t) - 1 - 1 / 1000 < of_int k"
    and "of_int k \<le> 100 * (1 - f / t) + 1 / 1000"
    by linarith+
  then have "100 * (1 - real (unat fr) / real (unat sz)) - 1 - 1 / 1000
        < real (unat (word_of_int k :: u32))"
    and "real (unat (word_of_int k :: u32))
        \<le> 100 * (1 - real (unat fr) / real (unat sz)) + 1 / 1000"
    by (simp_all only: ru f_def t_def)
  with r le show ?thesis
    by blast
qed

lemma ram_usage_example: "ram_usage 8388608 16777216 = Inr 50"
proof -
  have "float_of_u32 16777216 = 16777216" and "float_of_u32 8388608 = 8388608"
    by (simp_all add: float_of_u32_def round32_2_23 round32_2_24)
  then show ?thesis
    by (simp add: ram_usage_def Let_def round32_half round32_50 u32_of_float_def
        integral_part_def)
qed

text \<open>
  The conversion is undefined when \<^verbatim>\<open>RamSize\<close> is zero, and it can be when
  \<^verbatim>\<open>RamFree\<close> exceeds \<^verbatim>\<open>RamSize\<close>.
\<close>

lemma ram_usage_zero_size: "ram_usage fr 0 = Inl Undefined_conversion"
  by (simp add: ram_usage_def float_of_u32_def)

lemma round32_exact_negative:
  assumes "0 < r" and "2 powr of_int e \<le> r" and "r < 2 powr of_int (e + 1)"
    and "r = of_int k * 2 powr of_int (e - 23)"
  shows "round32 (- r) = - r"
proof -
  define u :: real where "u = 2 powr of_int (e - 23)"
  have u: "0 < u" by (simp add: u_def)
  have "exponent (- r) = exponent r"
    by (simp add: exponent_def)
  also have "\<dots> = e"
    using assms(1-3) by (rule exponent_eq)
  finally have e: "exponent (- r) = e" .
  have q: "- r / u = of_int (- k)"
    using assms(4) u by (simp add: u_def)
  have "round_half_even (- r / u) = - k"
    unfolding q by (rule rhe_of_int)
  moreover have "round32 (- r) = of_int (round_half_even (- r / u)) * u"
    using assms(1) by (simp add: round32_def Let_def e u_def)
  ultimately have "round32 (- r) = of_int (- k) * u"
    by (simp only:)
  then show ?thesis
    using assms(4) by (simp add: u_def)
qed

lemma ram_usage_free_exceeds: "ram_usage 3 1 = Inl Undefined_conversion"
proof -
  have "round32 3 = 3"
    by (rule round32_exact [where e = 1 and k = "3 * 2 ^ 22"]) (simp_all add: powr_neg_numeral)
  moreover have "round32 300 = 300"
    by (rule round32_exact [where e = 8 and k = "300 * 2 ^ 15"]) (simp_all add: powr_neg_numeral)
  moreover have "round32 (- 200) = - 200"
    by (rule round32_exact_negative [where e = 7 and k = "200 * 2 ^ 16"])
      (simp_all add: powr_neg_numeral)
  ultimately show ?thesis
    by (simp add: ram_usage_def Let_def float_of_u32_def round32_1 u32_of_float_def)
qed

section \<open>Properties of the snapshot assembler\<close>

declare file_lines.simps [simp del]

lemma null_corinfo_zero: "corinfo_wf info \<Longrightarrow> null_corinfo info = zero_corinfo"
  by (cases info) (simp add: null_corinfo_def zero_corinfo_def corinfo_wf_def zero_loop_eq)

lemma corinfo_wf_zero [simp]: "corinfo_wf zero_corinfo"
  by (simp add: corinfo_wf_def zero_corinfo_def)

lemma zero_corinfo_lengths [simp]:
  "length (VendorString zero_corinfo) = 12" "length (BrandString zero_corinfo) = 48"
  by (simp_all add: zero_corinfo_def)

lemma vendor_string_regs:
  "length s = 12 \<Longrightarrow>
   vendor_string (regs_of r) s = Inr (case r of (a, b, c, d) \<Rightarrow> le_bytes b @ le_bytes d @ le_bytes c)"
  by (cases r) (simp add: regs_of_def vendor_string_eq)

lemma and_then_simps [simp]: "and_then (Inr x) f = f x" "and_then (Inl e) f = Inl e"
  by (simp_all add: and_then_def)

lemma GetInfo_linux_sysinfo_fails:
  "corinfo_wf info \<Longrightarrow> lx_sysinfo host = None \<Longrightarrow>
   corinfo_GetInfo_linux host (Some info) = Inr (- 1, Some zero_corinfo, [Ev_sysinfo])"
  by (simp add: corinfo_GetInfo_linux_def null_corinfo_zero)

lemma GetInfo_linux_identified:
  assumes "corinfo_wf info" and "lx_sysinfo host = Some sys"
  shows "corinfo_GetInfo_linux host (Some info) =
     (case lx_cpuinfo host of
        None \<Rightarrow>
          Inr (- 1, Some (identified (lx_processor host) zero_corinfo),
               [Ev_sysinfo] @ identification_calls @ [Ev_fopen])
      | Some f \<Rightarrow>
          and_then (scan_loop f ([Ev_sysinfo] @ identification_calls @ [Ev_fopen]))
            (\<lambda>(MHz, calls4).
               case MHz of
                 None \<Rightarrow> Inl Uninitialized_read
               | Some m \<Rightarrow>
                   and_then
                     (ram_usage (ucast (freeram sys div 1024)) (ucast (totalram sys div 1024)))
                     (\<lambda>usage.
                        Inr (0,
                             Some ((identified (lx_processor host) zero_corinfo)
                               \<lparr>CpuCount := ucast (lx_nprocessors_onln host),
                                CpuFrequency := ucast m,
                                RamSize := ucast (totalram sys div 1024),
                                RamFree := ucast (freeram sys div 1024),
                                RamUsage := usage\<rparr>),
                             calls4 @ [Ev_fclose, Ev_sysconf]))))"
proof (cases "lx_processor host 0"; cases "lx_processor host 1"; cases "lx_cpuinfo host")
qed (use assms in \<open>simp_all add: corinfo_GetInfo_linux_def null_corinfo_zero cpuid_eq
      vendor_string_eq brand_string_eq extensions_eq identified_def identification_calls_def
      regs_of_def Let_def split del: split_of_bool cong: option.case_cong\<close>)

lemma GetInfo_win32_identified:
  assumes "corinfo_wf info"
  shows "corinfo_GetInfo_win32 host (Some info) =
     (if w_RegOpenKeyEx host \<noteq> ERROR_SUCCESS then
        Inr (0, Some (identified (w_processor host) zero_corinfo),
             [Ev_GetSystemInfo, Ev_GlobalMemoryStatusEx] @ identification_calls @
             [Ev_RegOpenKeyEx, Ev_FormatMessage, Ev_wprintf])
      else
        (case w_GlobalMemoryStatusEx host of
           None \<Rightarrow> Inl Uninitialized_read
         | Some mem \<Rightarrow>
             Inr (0,
                  Some ((identified (w_processor host) zero_corinfo)
                    \<lparr>CpuCount := w_dwNumberOfProcessors host,
                     CpuFrequency :=
                       (case w_RegQueryValueEx host of None \<Rightarrow> MAX_PATH | Some v \<Rightarrow> v),
                     RamSize := ucast (ullTotalPhys mem div 1024),
                     RamFree := ucast (ullAvailPhys mem div 1024),
                     RamUsage := dwMemoryLoad mem\<rparr>),
                  [Ev_GetSystemInfo, Ev_GlobalMemoryStatusEx] @ identification_calls @
                  [Ev_RegOpenKeyEx, Ev_RegQueryValueEx])))"
proof (cases "w_processor host 0"; cases "w_processor host 1"; cases "w_GlobalMemoryStatusEx host")
qed (use assms in \<open>simp_all add: corinfo_GetInfo_win32_def null_corinfo_zero cpuid_eq
      vendor_string_eq brand_string_eq extensions_eq identified_def identification_calls_def
      regs_of_def Let_def split del: split_of_bool\<close>)

lemma scan_loop_eq:
  "scan_loop f calls =
     (case find marker_line (file_lines f) of
        None \<Rightarrow> Inr (None, calls @ replicate (Suc (length (file_lines f))) Ev_getline)
      | Some line \<Rightarrow>
          and_then (parse_MHz line) (\<lambda>m.
            Inr (Some m,
                 calls @ replicate (Suc (length (takeWhile (\<lambda>l. \<not> marker_line l) (file_lines f))))
                   Ev_getline)))"
proof (induction f calls rule: scan_loop.induct)
  case (1 f calls)
  show ?case
  proof (cases "getline f")
    case None
    then have "file_lines f = []" and "scan_loop f calls = Inr (None, calls @ [Ev_getline])"
      by (simp_all add: file_lines.simps [of f] scan_loop.simps [of f])
    then show ?thesis
      by simp
  next
    case (Some p)
    obtain line rest where p: "p = (line, rest)"
      by (cases p)
    from Some p have fl: "file_lines f = line # file_lines rest"
      by (simp add: file_lines.simps [of f])
    show ?thesis
    proof (cases "marker_line line")
      case True
      with Some p have "scan_loop f calls =
          and_then (parse_MHz line) (\<lambda>m. Inr (Some m, calls @ [Ev_getline]))"
        by (simp add: scan_loop.simps [of f])
      with True fl show ?thesis
        by simp
    next
      case False
      with Some p have sl: "scan_loop f calls = scan_loop rest (calls @ [Ev_getline])"
        by (simp add: scan_loop.simps [of f])
      have IH: "scan_loop rest (calls @ [Ev_getline]) =
        (case find marker_line (file_lines rest) of
           None \<Rightarrow>
             Inr (None, (calls @ [Ev_getline]) @ replicate (Suc (length (file_lines rest))) Ev_getline)
         | Some line \<Rightarrow>
             and_then (parse_MHz line) (\<lambda>m.
               Inr (Some m,
                    (calls @ [Ev_getline]) @
                    replicate (Suc (length (takeWhile (\<lambda>l. \<not> marker_line l) (file_lines rest))))
                      Ev_getline)))"
        by (rule 1 [OF Some p [symmetric] False])
      show ?thesis
        unfolding sl IH fl using False
        by (simp split: option.splits)
    qed
  qed
qed

lemma identified_keeps_zero:
  "CpuCount (identified hw zero_corinfo) = 0"
  "CpuFrequency (identified hw zero_corinfo) = 0"
  "RamSize (identified hw zero_corinfo) = 0"
  "RamFree (identified hw zero_corinfo) = 0"
  "RamUsage (identified hw zero_corinfo) = 0"
  by (simp_all add: identified_def zero_corinfo_def split: prod.splits)

lemma identified_example: "identified example_processor zero_corinfo = example_snapshot"
  by (simp add: identified_def example_processor_def example_snapshot_def block16_def
      le_bytes_def replicate_8)

lemma ucast_scast_32: "(ucast (scast (w :: 32 word) :: 64 word) :: 32 word) = w"
  by (rule bit_word_eqI) (auto simp add: bit_simps)

lemma c_string_line_buffer [simp]: "c_string (line_buffer line) = c_string line"
  by (simp add: c_string_def line_buffer_def takeWhile_tail)

lemma c_string_drop_line_buffer:
  "p \<le> length line \<Longrightarrow> c_string (drop p (line_buffer line)) = c_string (drop p line)"
  by (simp add: c_string_def line_buffer_def takeWhile_tail)

lemma drop_takeWhile:
  "n \<le> length (takeWhile P xs) \<Longrightarrow> drop n (takeWhile P xs) = takeWhile P (drop n xs)"
proof (induction xs arbitrary: n)
  case Nil
  then show ?case by simp
next
  case (Cons x xs)
  then show ?case
    by (cases n) (auto split: if_splits)
qed

lemma parse_MHz_eq:
  assumes "strchr (line_buffer line) CHR '':'' = Some p" and "p + 2 \<le> length line"
    and "- (2 ^ 31) \<le> atoi_value (c_string (drop (p + 2) line))"
    and "atoi_value (c_string (drop (p + 2) line)) < 2 ^ 31"
  shows "parse_MHz line =
     Inr (scast (word_of_int (atoi_value (c_string (drop (p + 2) line))) :: 32 word))"
proof -
  from assms(2) have "string_at (line_buffer line) (p + 2) = Some (c_string (drop (p + 2) line))"
    by (simp add: string_at_def c_string_drop_line_buffer) (simp add: line_buffer_def)
  with assms(1,3,4) show ?thesis
    by (simp add: parse_MHz_def atoi_def)
qed

text \<open>
  A zero byte after the colon does not end the parse; a line without a colon, or with
  the colon as its last byte, is outside what the program defines.
\<close>

lemma parse_MHz_zero_byte:
  "parse_MHz (''cpu MHz:'' @ [CHR 0x00] @ ''42'' @ [CHR 0x0A]) = Inr 42"
  by (simp add: parse_MHz_def strchr_def c_string_def line_buffer_def string_at_def atoi_def
      atoi_value_def isspace_def isdigit_def)

lemma parse_MHz_no_colon:
  "parse_MHz (''cpu MHz'' @ [CHR 0x0A]) = Inl Null_dereference"
  by (simp add: parse_MHz_def strchr_def c_string_def line_buffer_def)

lemma parse_MHz_colon_last:
  "parse_MHz ''cpu MHz:'' = Inl Out_of_bounds_read"
  by (simp add: parse_MHz_def strchr_def c_string_def line_buffer_def string_at_def)

lemma integer_after_colon_space:
  assumes "strchr (line_buffer line) CHR '':'' = Some p" and "p + 2 \<le> length line"
    and "isspace (line ! (p + 1))"
  shows "integer_after_colon line = atoi_value (c_string (drop (p + 2) line))"
proof -
  define cs where "cs = c_string line"
  from assms(1) have p: "p = length (takeWhile (\<lambda>x. x \<noteq> CHR '':'') cs)" and pl: "p < length cs"
    by (auto simp add: strchr_def cs_def Let_def split: if_splits)
  have dw: "dropWhile (\<lambda>x. x \<noteq> CHR '':'') cs = drop p cs"
    unfolding p by (rule dropWhile_eq_drop)
  from assms(3) have nz: "line ! (p + 1) \<noteq> CHR 0x00"
    by (auto simp add: isspace_def)
  have len: "p + 2 \<le> length cs"
  proof (rule ccontr)
    assume "\<not> p + 2 \<le> length cs"
    with pl have l: "length cs = p + 1" by simp
    with assms(2) have "length (takeWhile (\<lambda>c. c \<noteq> CHR 0x00) line) < length line"
      by (simp add: cs_def c_string_def)
    from nth_length_takeWhile [OF this] l nz show False
      by (simp add: cs_def c_string_def)
  qed
  then have "p + 1 < length cs" by simp
  then have "drop (p + 1) cs = cs ! (p + 1) # drop (p + 2) cs"
    by (simp add: Cons_nth_drop_Suc)
  moreover have "cs ! (p + 1) = line ! (p + 1)"
    using \<open>p + 1 < length cs\<close> unfolding cs_def c_string_def by (rule takeWhile_nth)
  moreover have "drop (p + 2) cs = c_string (drop (p + 2) line)"
    using len unfolding cs_def c_string_def by (rule drop_takeWhile)
  ultimately have "drop 1 (drop p cs) = line ! (p + 1) # c_string (drop (p + 2) line)"
    by simp
  with assms(3) dw show ?thesis
    by (simp add: integer_after_colon_def atoi_value_def cs_def)
qed

lemma uint_frequency:
  assumes "- (2 ^ 31) \<le> n" and "n < 2 ^ 31"
  shows "uint (word_of_int n :: 32 word) = (if 0 \<le> n then n else n + 2 ^ 32)"
proof -
  have "uint (word_of_int n :: 32 word) = n mod 2 ^ 32"
    by (simp add: uint_word_of_int_eq take_bit_eq_mod)
  also have "\<dots> = (if 0 \<le> n then n else n + 2 ^ 32)"
  proof (cases "0 \<le> n")
    case True
    with assms show ?thesis by simp
  next
    case False
    with assms have "0 \<le> n + 2 ^ 32" and "n + 2 ^ 32 < 2 ^ 32" by simp_all
    then have "(n + 2 ^ 32) mod 2 ^ 32 = n + 2 ^ 32"
      by (rule mod_pos_pos_trivial)
    with False show ?thesis by simp
  qed
  finally show ?thesis .
qed

lemma corinfo_wf_example [simp]: "corinfo_wf example_snapshot"
  by (simp add: corinfo_wf_def example_snapshot_def zero_corinfo_def)

lemma getline_calls_simps [simp]:
  "getline_calls [] = 0"
  "getline_calls (e # calls) = (if e = Ev_getline then Suc (getline_calls calls) else getline_calls calls)"
  "getline_calls (calls @ calls') = getline_calls calls + getline_calls calls'"
  "getline_calls (replicate n Ev_getline) = n"
  by (simp_all add: getline_calls_def)

text \<open>
  Claim C9. With a null output target \<^verbatim>\<open>corinfo_GetInfo\<close> returns \<open>-1\<close> at once, in
  both variants: no system call and no identification call is made, and there is no
  struct that could have been written.
\<close>

theorem GetInfo_null_target:
  "corinfo_GetInfo_linux host None = Inr (- 1, None, []) \<and>
   corinfo_GetInfo_win32 whost None = Inr (- 1, None, [])"
  by (simp add: corinfo_GetInfo_linux_def corinfo_GetInfo_win32_def)

text \<open>At the example hosts.\<close>

theorem GetInfo_null_target_witness:
  "corinfo_GetInfo_linux example_linux None = Inr (- 1, None, []) \<and>
   corinfo_GetInfo_win32 example_win None = Inr (- 1, None, [])"
  by (rule GetInfo_null_target)

text \<open>
  Claim C5. In the registry-based variant, when the key of the first logical processor
  cannot be opened, \<^verbatim>\<open>corinfo_GetInfo\<close> returns success (0) with partial data: it
  returns before the core count, the frequency and the three memory fields are
  assigned, so these are zero, while the vendor string, the brand string and the flags
  hold what the identification phase decoded. \<^verbatim>\<open>RegQueryValueEx\<close> is not called.
\<close>

theorem GetInfo_win32_key_not_opened:
  assumes "corinfo_wf info" and "w_RegOpenKeyEx host \<noteq> ERROR_SUCCESS"
  shows "\<exists>snapshot.
           corinfo_GetInfo_win32 host (Some info) =
             Inr (0, Some snapshot,
                  [Ev_GetSystemInfo, Ev_GlobalMemoryStatusEx] @ identification_calls @
                  [Ev_RegOpenKeyEx, Ev_FormatMessage, Ev_wprintf]) \<and>
           snapshot = identified (w_processor host) zero_corinfo \<and>
           CpuCount snapshot = 0 \<and> CpuFrequency snapshot = 0 \<and>
           RamSize snapshot = 0 \<and> RamFree snapshot = 0 \<and> RamUsage snapshot = 0"
  using assms by (simp add: GetInfo_win32_identified identified_keeps_zero)

text \<open>At the example host whose key cannot be opened (error code 2).\<close>

theorem GetInfo_win32_key_not_opened_witness:
  "corinfo_wf zero_corinfo \<and> w_RegOpenKeyEx example_win_no_key \<noteq> ERROR_SUCCESS \<and>
   corinfo_GetInfo_win32 example_win_no_key (Some zero_corinfo) =
     Inr (0, Some example_snapshot,
          [Ev_GetSystemInfo, Ev_GlobalMemoryStatusEx, Ev_cpuid 0x00000000, Ev_cpuid 0x80000002,
           Ev_cpuid 0x80000003, Ev_cpuid 0x80000004, Ev_cpuid 0x00000001, Ev_RegOpenKeyEx,
           Ev_FormatMessage, Ev_wprintf])"
proof -
  have h: "w_RegOpenKeyEx example_win_no_key \<noteq> ERROR_SUCCESS"
    by (simp add: example_win_no_key_def example_win_def ERROR_SUCCESS_def)
  have p: "w_processor example_win_no_key = example_processor"
    by (simp add: example_win_no_key_def example_win_def)
  from GetInfo_win32_key_not_opened [OF corinfo_wf_zero h] h show ?thesis
    by (simp add: p identified_example identification_calls_def)
qed

text \<open>
  Claim C4 says that whenever \<^verbatim>\<open>corinfo_GetInfo\<close> returns \<open>-1\<close> after the zeroing,
  the snapshot is all zero. It is not when \<^verbatim>\<open>fopen\<close> fails: the identification
  phase has run by then, and the snapshot holds the vendor tag, the brand and the flags.
\<close>

theorem GetInfo_error_not_zeroed_counterexample:
  "corinfo_GetInfo_linux example_linux_no_cpuinfo (Some zero_corinfo) =
     Inr (- 1, Some example_snapshot,
          [Ev_sysinfo, Ev_cpuid 0x00000000, Ev_cpuid 0x80000002, Ev_cpuid 0x80000003,
           Ev_cpuid 0x80000004, Ev_cpuid 0x00000001, Ev_fopen]) \<and>
   VendorString example_snapshot = map of_char ''GenuineIntel'' \<and>
   example_snapshot \<noteq> zero_corinfo"
proof -
  have "lx_sysinfo example_linux_no_cpuinfo =
      Some \<lparr>totalram = 17179869184, freeram = 8589934592\<rparr>"
    and "lx_cpuinfo example_linux_no_cpuinfo = None"
    and "lx_processor example_linux_no_cpuinfo = example_processor"
    by (simp_all add: example_linux_no_cpuinfo_def example_linux_def)
  then have "corinfo_GetInfo_linux example_linux_no_cpuinfo (Some zero_corinfo) =
     Inr (- 1, Some example_snapshot,
          [Ev_sysinfo, Ev_cpuid 0x00000000, Ev_cpuid 0x80000002, Ev_cpuid 0x80000003,
           Ev_cpuid 0x80000004, Ev_cpuid 0x00000001, Ev_fopen])"
    by (simp add: GetInfo_linux_identified [OF corinfo_wf_zero] identified_example
        identification_calls_def)
  moreover have "VendorString example_snapshot = map of_char ''GenuineIntel''"
    by (simp add: example_snapshot_def)
  moreover have "MMX example_snapshot \<noteq> MMX zero_corinfo"
    by (simp add: example_snapshot_def zero_corinfo_def)
  then have "example_snapshot \<noteq> zero_corinfo"
    by auto
  ultimately show ?thesis
    by simp
qed

text \<open>
  Claim C4, amended. For every non-null target, \<^verbatim>\<open>corinfo_GetInfo\<close> zeroes every
  field before anything else, so that its result does not depend on what the struct
  held. A return of \<open>-1\<close> has one of two causes in the Unix-like variant and none in
  the registry-based variant. When \<^verbatim>\<open>sysinfo\<close> fails, the snapshot is all zero. When
  \<^verbatim>\<open>fopen\<close> fails, the core count, the frequency and the three memory fields are zero,
  and the vendor string, the brand string and the flags hold what the identification
  phase decoded.
\<close>

theorem GetInfo_error_snapshots:
  assumes "corinfo_wf info"
  shows "corinfo_GetInfo_linux host (Some info) = corinfo_GetInfo_linux host (Some zero_corinfo) \<and>
         (lx_sysinfo host = None \<longrightarrow>
            corinfo_GetInfo_linux host (Some info) = Inr (- 1, Some zero_corinfo, [Ev_sysinfo])) \<and>
         (lx_sysinfo host \<noteq> None \<longrightarrow> lx_cpuinfo host = None \<longrightarrow>
            corinfo_GetInfo_linux host (Some info) =
              Inr (- 1, Some (identified (lx_processor host) zero_corinfo),
                   [Ev_sysinfo] @ identification_calls @ [Ev_fopen])) \<and>
         (corinfo_GetInfo_linux host (Some info) = Inr (- 1, snapshot, calls) \<longrightarrow>
            lx_sysinfo host = None \<or> lx_cpuinfo host = None) \<and>
         CpuCount (identified (lx_processor host) zero_corinfo) = 0 \<and>
         CpuFrequency (identified (lx_processor host) zero_corinfo) = 0 \<and>
         RamSize (identified (lx_processor host) zero_corinfo) = 0 \<and>
         RamFree (identified (lx_processor host) zero_corinfo) = 0 \<and>
         RamUsage (identified (lx_processor host) zero_corinfo) = 0 \<and>
         corinfo_GetInfo_win32 whost (Some info) = corinfo_GetInfo_win32 whost (Some zero_corinfo) \<and>
         corinfo_GetInfo_win32 whost (Some info) \<noteq> Inr (- 1, snapshot', calls')"
proof -
  have zero_first: "corinfo_GetInfo_linux host (Some info) = corinfo_GetInfo_linux host (Some zero_corinfo)"
    using assms by (simp add: corinfo_GetInfo_linux_def null_corinfo_zero)
  have zero_first_win:
    "corinfo_GetInfo_win32 whost (Some info) = corinfo_GetInfo_win32 whost (Some zero_corinfo)"
    using assms by (simp add: corinfo_GetInfo_win32_def null_corinfo_zero)
  have sysinfo: "corinfo_GetInfo_linux host (Some info) = Inr (- 1, Some zero_corinfo, [Ev_sysinfo])"
    if "lx_sysinfo host = None"
    using assms that by (rule GetInfo_linux_sysinfo_fails)
  have fopen: "corinfo_GetInfo_linux host (Some info) =
      Inr (- 1, Some (identified (lx_processor host) zero_corinfo),
           [Ev_sysinfo] @ identification_calls @ [Ev_fopen])"
    if "lx_sysinfo host \<noteq> None" and "lx_cpuinfo host = None"
    using that GetInfo_linux_identified [OF assms] by auto
  have only: "lx_sysinfo host = None \<or> lx_cpuinfo host = None"
    if r: "corinfo_GetInfo_linux host (Some info) = Inr (- 1, snapshot, calls)"
  proof (rule ccontr)
    assume "\<not> (lx_sysinfo host = None \<or> lx_cpuinfo host = None)"
    then obtain sys f where "lx_sysinfo host = Some sys" and "lx_cpuinfo host = Some f"
      by auto
    with r GetInfo_linux_identified [OF assms, of host sys] show False
      by (auto simp add: and_then_def split: sum.splits option.splits)
  qed
  have win: "corinfo_GetInfo_win32 whost (Some info) \<noteq> Inr (- 1, snapshot', calls')"
    using GetInfo_win32_identified [OF assms, of whost]
    by (auto split: option.splits)
  from zero_first zero_first_win sysinfo fopen only win show ?thesis
    by (simp add: identified_keeps_zero)
qed

text \<open>At the example host, once without \<^verbatim>\<open>sysinfo\<close> and once without the pseudo-file.\<close>

theorem GetInfo_error_snapshots_witness:
  "corinfo_wf example_snapshot \<and>
   lx_sysinfo example_linux_no_sysinfo = None \<and>
   corinfo_GetInfo_linux example_linux_no_sysinfo (Some example_snapshot) =
     Inr (- 1, Some zero_corinfo, [Ev_sysinfo]) \<and>
   lx_sysinfo example_linux_no_cpuinfo \<noteq> None \<and>
   lx_cpuinfo example_linux_no_cpuinfo = None \<and>
   corinfo_GetInfo_linux example_linux_no_cpuinfo (Some example_snapshot) =
     Inr (- 1, Some example_snapshot,
          [Ev_sysinfo, Ev_cpuid 0x00000000, Ev_cpuid 0x80000002, Ev_cpuid 0x80000003,
           Ev_cpuid 0x80000004, Ev_cpuid 0x00000001, Ev_fopen])"
proof -
  have a: "lx_sysinfo example_linux_no_sysinfo = None"
    by (simp add: example_linux_no_sysinfo_def)
  have b: "lx_sysinfo example_linux_no_cpuinfo \<noteq> None"
    and c: "lx_cpuinfo example_linux_no_cpuinfo = None"
    and p: "lx_processor example_linux_no_cpuinfo = example_processor"
    by (simp_all add: example_linux_no_cpuinfo_def example_linux_def)
  from GetInfo_error_snapshots [OF corinfo_wf_example, of example_linux_no_sysinfo] a
  have r1: "corinfo_GetInfo_linux example_linux_no_sysinfo (Some example_snapshot) =
     Inr (- 1, Some zero_corinfo, [Ev_sysinfo])"
    by blast
  from GetInfo_error_snapshots [OF corinfo_wf_example, of example_linux_no_cpuinfo] b c
  have "corinfo_GetInfo_linux example_linux_no_cpuinfo (Some example_snapshot) =
     Inr (- 1, Some (identified (lx_processor example_linux_no_cpuinfo) zero_corinfo),
          [Ev_sysinfo] @ identification_calls @ [Ev_fopen])"
    by blast
  then have r2: "corinfo_GetInfo_linux example_linux_no_cpuinfo (Some example_snapshot) =
     Inr (- 1, Some example_snapshot,
          [Ev_sysinfo, Ev_cpuid 0x00000000, Ev_cpuid 0x80000002, Ev_cpuid 0x80000003,
           Ev_cpuid 0x80000004, Ev_cpuid 0x00000001, Ev_fopen])"
    by (simp add: p identified_example identification_calls_def)
  from a b c r1 r2 show ?thesis
    by simp
qed

text \<open>
  Claim C8 says that a collection that fails at the memory query leaves the vendor
  string, the brand string and the flags of the identification phase intact in the
  caller's snapshot. The memory query comes first: when it fails no identification call
  has been made, and the three fields hold zeros, neither what the caller's snapshot
  held nor what the processor reports.
\<close>

theorem GetInfo_memory_failure_counterexample:
  "corinfo_GetInfo_linux example_linux_no_sysinfo (Some example_snapshot) =
     Inr (- 1, Some zero_corinfo, [Ev_sysinfo]) \<and>
   identified (lx_processor example_linux_no_sysinfo) zero_corinfo = example_snapshot \<and>
   VendorString zero_corinfo \<noteq> VendorString example_snapshot \<and>
   BrandString zero_corinfo \<noteq> BrandString example_snapshot \<and>
   flags zero_corinfo \<noteq> flags example_snapshot"
proof -
  have "lx_sysinfo example_linux_no_sysinfo = None"
    and "lx_processor example_linux_no_sysinfo = example_processor"
    by (simp_all add: example_linux_no_sysinfo_def example_linux_def)
  then have "corinfo_GetInfo_linux example_linux_no_sysinfo (Some example_snapshot) =
      Inr (- 1, Some zero_corinfo, [Ev_sysinfo])"
    and "identified (lx_processor example_linux_no_sysinfo) zero_corinfo = example_snapshot"
    by (simp_all add: GetInfo_linux_sysinfo_fails identified_example)
  moreover have "VendorString zero_corinfo ! 0 \<noteq> VendorString example_snapshot ! 0"
    and "BrandString zero_corinfo ! 0 \<noteq> BrandString example_snapshot ! 0"
    by (simp_all add: example_snapshot_def zero_corinfo_def)
  then have "VendorString zero_corinfo \<noteq> VendorString example_snapshot"
    and "BrandString zero_corinfo \<noteq> BrandString example_snapshot"
    by auto
  moreover have "flags zero_corinfo \<noteq> flags example_snapshot"
    by (simp add: example_snapshot_def zero_corinfo_def flags_def)
  ultimately show ?thesis
    by simp
qed

text \<open>
  Claim C8, amended. A collection that fails at the memory query returns \<open>-1\<close> after
  the single call \<^verbatim>\<open>sysinfo\<close>, before any identification call: the vendor string, the
  brand string and the flags are zero, as the initial zeroing left them. A snapshot that
  was passed in zeroed comes back unchanged.
\<close>

theorem GetInfo_memory_query_fails:
  assumes "corinfo_wf info" and "lx_sysinfo host = None"
  shows "corinfo_GetInfo_linux host (Some info) = Inr (- 1, Some zero_corinfo, [Ev_sysinfo]) \<and>
         corinfo_GetInfo_linux host (Some zero_corinfo) =
           Inr (- 1, Some zero_corinfo, [Ev_sysinfo]) \<and>
         VendorString zero_corinfo = replicate 12 0 \<and>
         BrandString zero_corinfo = replicate 48 0 \<and>
         flags zero_corinfo = [0, 0, 0, 0, 0, 0, 0]"
  using assms
  by (simp add: GetInfo_linux_sysinfo_fails) (simp add: zero_corinfo_def flags_def)

text \<open>At the example host without \<^verbatim>\<open>sysinfo\<close>, on a snapshot of an earlier collection.\<close>

theorem GetInfo_memory_query_fails_witness:
  "corinfo_wf example_snapshot \<and> lx_sysinfo example_linux_no_sysinfo = None \<and>
   corinfo_GetInfo_linux example_linux_no_sysinfo (Some example_snapshot) =
     Inr (- 1, Some zero_corinfo, [Ev_sysinfo])"
proof -
  have a: "lx_sysinfo example_linux_no_sysinfo = None"
    by (simp add: example_linux_no_sysinfo_def)
  from GetInfo_memory_query_fails [OF corinfo_wf_example a] a show ?thesis
    by simp
qed

text \<open>
  Claim C6, amended. In the Unix-like variant, a collection that has opened the
  pseudo-file scans it line by line and stops at the first line that begins with
  \<^verbatim>\<open>cpu MHz\<close>. When that line has a colon before any zero byte, and at least one more
  byte after that colon, the program applies \<^verbatim>\<open>atoi\<close> two bytes after the colon: the
  colon and the byte after it are skipped, and the text read ends at the next zero byte
  or at the end of the line. When the integer \<open>n\<close> parsed there fits an \<^verbatim>\<open>int\<close>, and the
  usage conversion of line 148 is defined, the collection returns 0 and the stored
  frequency is \<open>n\<close> converted to \<^verbatim>\<open>uint32_t\<close>: \<open>n\<close> when it is not negative,
  \<open>n + 2\<^sup>3\<^sup>2\<close> when it is. When the skipped byte is white space, as in the kernel's
  format, \<open>n\<close> is the integer immediately after the colon. When no line begins with
  the marker, the program reads the scan variable unassigned: the result is not defined.
\<close>

theorem linux_frequency_scan:
  assumes "corinfo_wf info" and "lx_sysinfo host = Some sys" and "lx_cpuinfo host = Some f"
  shows "(find marker_line (file_lines f) = Some line \<and>
          strchr (line_buffer line) CHR '':'' = Some p \<and> p + 2 \<le> length line \<and>
          n = atoi_value (c_string (drop (p + 2) line)) \<and>
          - (2 ^ 31) \<le> n \<and> n < 2 ^ 31 \<and>
          ram_usage (ucast (freeram sys div 1024)) (ucast (totalram sys div 1024)) = Inr usage \<longrightarrow>
            (\<exists>snapshot calls.
               corinfo_GetInfo_linux host (Some info) = Inr (0, Some snapshot, calls) \<and>
               CpuFrequency snapshot = word_of_int n \<and>
               uint (CpuFrequency snapshot) = (if 0 \<le> n then n else n + 2 ^ 32) \<and>
               getline_calls calls =
                 Suc (length (takeWhile (\<lambda>l. \<not> marker_line l) (file_lines f))) \<and>
               (isspace (line ! (p + 1)) \<longrightarrow> n = integer_after_colon line))) \<and>
         (find marker_line (file_lines f) = None \<longrightarrow>
            corinfo_GetInfo_linux host (Some info) = Inl Uninitialized_read)"
proof (intro conjI impI)
  assume "find marker_line (file_lines f) = None"
  then show "corinfo_GetInfo_linux host (Some info) = Inl Uninitialized_read"
    using assms by (simp add: GetInfo_linux_identified scan_loop_eq)
next
  assume a: "find marker_line (file_lines f) = Some line \<and>
          strchr (line_buffer line) CHR '':'' = Some p \<and> p + 2 \<le> length line \<and>
          n = atoi_value (c_string (drop (p + 2) line)) \<and>
          - (2 ^ 31) \<le> n \<and> n < 2 ^ 31 \<and>
          ram_usage (ucast (freeram sys div 1024)) (ucast (totalram sys div 1024)) = Inr usage"
  then have pm: "parse_MHz line = Inr (scast (word_of_int n :: 32 word))"
    by (simp add: parse_MHz_eq)
  have sp: "isspace (line ! (p + 1)) \<longrightarrow> n = integer_after_colon line"
    using a by (simp add: integer_after_colon_space)
  have ui: "uint (word_of_int n :: 32 word) = (if 0 \<le> n then n else n + 2 ^ 32)"
    using a by (intro uint_frequency) simp_all
  from a pm sp ui show "\<exists>snapshot calls.
               corinfo_GetInfo_linux host (Some info) = Inr (0, Some snapshot, calls) \<and>
               CpuFrequency snapshot = word_of_int n \<and>
               uint (CpuFrequency snapshot) = (if 0 \<le> n then n else n + 2 ^ 32) \<and>
               getline_calls calls =
                 Suc (length (takeWhile (\<lambda>l. \<not> marker_line l) (file_lines f))) \<and>
               (isspace (line ! (p + 1)) \<longrightarrow> n = integer_after_colon line)"
    using assms
    by (simp add: GetInfo_linux_identified scan_loop_eq ucast_scast_32 identification_calls_def
        del: word_of_int_eq_0_iff)
qed

text \<open>
  At the example host: the frequency line is the third line, three lines are read, and
  the frequency is 3700. Without a frequency line the result is not defined.
\<close>

lemma example_lines:
  "file_lines example_cpuinfo =
     [''processor'' @ [CHR 0x09] @ '': 0'' @ [CHR 0x0A],
      ''vendor_id'' @ [CHR 0x09] @ '': GenuineIntel'' @ [CHR 0x0A],
      ''cpu MHz'' @ [CHR 0x09, CHR 0x09] @ '': 3700.000'' @ [CHR 0x0A],
      ''cache size'' @ [CHR 0x09] @ '': 12288 KB'' @ [CHR 0x0A]]"
  by (simp add: example_cpuinfo_def file_lines.simps)

lemma example_find:
  "find marker_line (file_lines example_cpuinfo) =
     Some (''cpu MHz'' @ [CHR 0x09, CHR 0x09] @ '': 3700.000'' @ [CHR 0x0A])"
  by (simp add: example_lines marker_line_def)

lemma example_strchr:
  "strchr (line_buffer (''cpu MHz'' @ [CHR 0x09, CHR 0x09] @ '': 3700.000'' @ [CHR 0x0A]))
     CHR '':'' = Some 9"
  by (simp add: strchr_def c_string_def line_buffer_def)

lemma example_atoi:
  "atoi_value
     (c_string (drop (9 + 2) (''cpu MHz'' @ [CHR 0x09, CHR 0x09] @ '': 3700.000'' @ [CHR 0x0A]))) =
   3700"
  by (simp add: c_string_def atoi_value_def isspace_def isdigit_def)

lemma example_space:
  "(''cpu MHz'' @ [CHR 0x09, CHR 0x09] @ '': 3700.000'' @ [CHR 0x0A]) ! (9 + 1) = CHR 0x20"
  by simp

lemma example_after_colon:
  "integer_after_colon (''cpu MHz'' @ [CHR 0x09, CHR 0x09] @ '': 3700.000'' @ [CHR 0x0A]) = 3700"
  by (simp add: integer_after_colon_def c_string_def atoi_value_def isspace_def isdigit_def)

lemma no_marker_find:
  "find marker_line (file_lines (''processor'' @ [CHR 0x09] @ '': 0'' @ [CHR 0x0A])) = None"
  by (simp add: file_lines.simps marker_line_def)

lemma example_linux_fields:
  "lx_sysinfo example_linux = Some \<lparr>totalram = 17179869184, freeram = 8589934592\<rparr>"
  "lx_cpuinfo example_linux = Some example_cpuinfo"
  "lx_processor example_linux = example_processor"
  "lx_nprocessors_onln example_linux = 8"
  by (simp_all add: example_linux_def)

lemma example_ram_usage:
  "ram_usage (ucast (freeram \<lparr>totalram = 17179869184, freeram = 8589934592\<rparr> div 1024))
     (ucast (totalram \<lparr>totalram = 17179869184, freeram = 8589934592\<rparr> div 1024)) = Inr 50"
  by (simp add: ram_usage_example)

lemma example_linux_result:
  "corinfo_GetInfo_linux example_linux (Some zero_corinfo) =
     Inr (0, Some example_result,
          [Ev_sysinfo, Ev_cpuid 0x00000000, Ev_cpuid 0x80000002, Ev_cpuid 0x80000003,
           Ev_cpuid 0x80000004, Ev_cpuid 0x00000001, Ev_fopen, Ev_getline, Ev_getline,
           Ev_getline, Ev_fclose, Ev_sysconf])"
  unfolding GetInfo_linux_identified [OF corinfo_wf_zero example_linux_fields(1)]
    example_linux_fields scan_loop_eq example_ram_usage
  by (simp add: example_lines marker_line_def parse_MHz_def strchr_def c_string_def
      line_buffer_def string_at_def atoi_def atoi_value_def isspace_def isdigit_def
      identified_example identification_calls_def example_result_def numeral_3_eq_3)

theorem linux_frequency_scan_witness:
  "corinfo_wf zero_corinfo \<and>
   lx_sysinfo example_linux = Some \<lparr>totalram = 17179869184, freeram = 8589934592\<rparr> \<and>
   lx_cpuinfo example_linux = Some example_cpuinfo \<and>
   find marker_line (file_lines example_cpuinfo) =
     Some (''cpu MHz'' @ [CHR 0x09, CHR 0x09] @ '': 3700.000'' @ [CHR 0x0A]) \<and>
   strchr (line_buffer (''cpu MHz'' @ [CHR 0x09, CHR 0x09] @ '': 3700.000'' @ [CHR 0x0A]))
     CHR '':'' = Some 9 \<and>
   atoi_value
     (c_string (drop (9 + 2) (''cpu MHz'' @ [CHR 0x09, CHR 0x09] @ '': 3700.000'' @ [CHR 0x0A]))) =
   3700 \<and>
   (\<exists>snapshot calls.
      corinfo_GetInfo_linux example_linux (Some zero_corinfo) = Inr (0, Some snapshot, calls) \<and>
      CpuFrequency snapshot = 3700 \<and> uint (CpuFrequency snapshot) = 3700 \<and>
      getline_calls calls = 3 \<and>
      integer_after_colon (''cpu MHz'' @ [CHR 0x09, CHR 0x09] @ '': 3700.000'' @ [CHR 0x0A]) = 3700) \<and>
   lx_cpuinfo example_linux_no_marker = Some (''processor'' @ [CHR 0x09] @ '': 0'' @ [CHR 0x0A]) \<and>
   find marker_line (file_lines (''processor'' @ [CHR 0x09] @ '': 0'' @ [CHR 0x0A])) = None \<and>
   corinfo_GetInfo_linux example_linux_no_marker (Some zero_corinfo) = Inl Uninitialized_read"
proof -
  note h = example_linux_fields(1,2)
  have h': "lx_sysinfo example_linux_no_marker =
      Some \<lparr>totalram = 17179869184, freeram = 8589934592\<rparr>"
    "lx_cpuinfo example_linux_no_marker = Some (''processor'' @ [CHR 0x09] @ '': 0'' @ [CHR 0x0A])"
    by (simp_all add: example_linux_no_marker_def example_linux_def)
  have sp: "isspace (CHR 0x20)"
    by (simp add: isspace_def)
  have tw: "length (takeWhile (\<lambda>l. \<not> marker_line l) (file_lines example_cpuinfo)) = 2"
    by (simp add: example_lines marker_line_def)
  have len: "9 + 2 \<le> length (''cpu MHz'' @ [CHR 0x09, CHR 0x09] @ '': 3700.000'' @ [CHR 0x0A])"
    by simp
  from linux_frequency_scan [OF corinfo_wf_zero h,
      where line = "''cpu MHz'' @ [CHR 0x09, CHR 0x09] @ '': 3700.000'' @ [CHR 0x0A]"
        and p = 9 and n = 3700 and usage = 50]
    example_find example_strchr example_atoi example_space example_ram_usage sp tw len
    example_after_colon
  have 1: "\<exists>snapshot calls.
      corinfo_GetInfo_linux example_linux (Some zero_corinfo) = Inr (0, Some snapshot, calls) \<and>
      CpuFrequency snapshot = 3700 \<and> uint (CpuFrequency snapshot) = 3700 \<and>
      getline_calls calls = 3 \<and>
      integer_after_colon (''cpu MHz'' @ [CHR 0x09, CHR 0x09] @ '': 3700.000'' @ [CHR 0x0A]) = 3700"
    by simp
  from linux_frequency_scan [OF corinfo_wf_zero h'] no_marker_find
  have 2: "corinfo_GetInfo_linux example_linux_no_marker (Some zero_corinfo) = Inl Uninitialized_read"
    by blast
  from h h' 1 2 example_find example_strchr example_atoi no_marker_find show ?thesis
    by (simp only: simp_thms corinfo_wf_zero)
qed

text \<open>
  Claim C6 says that the stored frequency is the integer parsed immediately after the
  colon, for every file that has a line beginning with the marker. For the one-line
  file \<^verbatim>\<open>cpu MHz:2400\<close> that integer is 2400, and the program stores 400.
\<close>

lemma no_space_lines:
  "file_lines (''cpu MHz:2400'' @ [CHR 0x0A]) = [''cpu MHz:2400'' @ [CHR 0x0A]]"
  by (simp add: file_lines.simps)

lemma no_space_after_colon: "integer_after_colon (''cpu MHz:2400'' @ [CHR 0x0A]) = 2400"
  by (simp add: integer_after_colon_def c_string_def atoi_value_def isspace_def isdigit_def)

theorem frequency_after_colon_counterexample:
  "corinfo_GetInfo_linux example_linux_no_space (Some zero_corinfo) =
     Inr (0,
          Some (example_snapshot\<lparr>CpuCount := 8, CpuFrequency := 400, RamSize := 16777216,
                  RamFree := 8388608, RamUsage := 50\<rparr>),
          [Ev_sysinfo, Ev_cpuid 0x00000000, Ev_cpuid 0x80000002, Ev_cpuid 0x80000003,
           Ev_cpuid 0x80000004, Ev_cpuid 0x00000001, Ev_fopen, Ev_getline, Ev_fclose,
           Ev_sysconf]) \<and>
   lx_cpuinfo example_linux_no_space = Some (''cpu MHz:2400'' @ [CHR 0x0A]) \<and>
   file_lines (''cpu MHz:2400'' @ [CHR 0x0A]) = [''cpu MHz:2400'' @ [CHR 0x0A]] \<and>
   marker_line (''cpu MHz:2400'' @ [CHR 0x0A]) \<and>
   integer_after_colon (''cpu MHz:2400'' @ [CHR 0x0A]) = 2400"
proof -
  have h: "lx_sysinfo example_linux_no_space =
      Some \<lparr>totalram = 17179869184, freeram = 8589934592\<rparr>"
    "lx_cpuinfo example_linux_no_space = Some (''cpu MHz:2400'' @ [CHR 0x0A])"
    "lx_processor example_linux_no_space = example_processor"
    "lx_nprocessors_onln example_linux_no_space = 8"
    by (simp_all add: example_linux_no_space_def example_linux_def)
  have m: "marker_line (''cpu MHz:2400'' @ [CHR 0x0A])"
    by (simp add: marker_line_def)
  have "corinfo_GetInfo_linux example_linux_no_space (Some zero_corinfo) =
     Inr (0,
          Some (example_snapshot\<lparr>CpuCount := 8, CpuFrequency := 400, RamSize := 16777216,
                  RamFree := 8388608, RamUsage := 50\<rparr>),
          [Ev_sysinfo, Ev_cpuid 0x00000000, Ev_cpuid 0x80000002, Ev_cpuid 0x80000003,
           Ev_cpuid 0x80000004, Ev_cpuid 0x00000001, Ev_fopen, Ev_getline, Ev_fclose,
           Ev_sysconf])"
    unfolding GetInfo_linux_identified [OF corinfo_wf_zero h(1)] h scan_loop_eq example_ram_usage
    by (simp add: file_lines.simps marker_line_def parse_MHz_def strchr_def c_string_def
        line_buffer_def string_at_def atoi_def atoi_value_def isspace_def isdigit_def
        identified_example identification_calls_def)
  with h(2) m show ?thesis
    by (simp only: no_space_lines no_space_after_colon simp_thms)
qed

text \<open>
  Claim C7. For every result of the Unix-like collector whose stored total size \<open>t\<close>
  (\<^verbatim>\<open>RamSize\<close>, in KB) is positive and whose stored free size \<open>f\<close> (\<^verbatim>\<open>RamFree\<close>) is at
  most \<open>t\<close>: the collector has returned 0; the stored \<^verbatim>\<open>RamUsage\<close> is the value of
  \<^verbatim>\<open>100 - (RamFree / (float)RamSize) * 100\<close> in single-precision arithmetic, converted
  to \<^verbatim>\<open>uint32_t\<close>; it lies between 0 and 100; and it equals \<open>100 (1 - f / t)\<close> within
  the rounding tolerance: it is the integral part of a \<^verbatim>\<open>float\<close> that differs from
  \<open>100 (1 - f / t)\<close> by at most \<open>1/1000\<close>, hence greater than
  \<open>100 (1 - f / t) - 1 - 1/1000\<close> and at most \<open>100 (1 - f / t) + 1/1000\<close>. For all such
  \<open>t\<close> and \<open>f\<close> the conversion is defined.
\<close>

theorem ram_usage_percent:
  assumes "corinfo_wf info"
    and "corinfo_GetInfo_linux host (Some info) = Inr (rc, Some snapshot, calls)"
    and "0 < RamSize snapshot" and "RamFree snapshot \<le> RamSize snapshot"
  shows "rc = 0 \<and>
         ram_usage (RamFree snapshot) (RamSize snapshot) = Inr (RamUsage snapshot) \<and>
         RamUsage snapshot \<le> 100 \<and>
         100 * (1 - real (unat (RamFree snapshot)) / real (unat (RamSize snapshot))) - 1 - 1 / 1000
           < real (unat (RamUsage snapshot)) \<and>
         real (unat (RamUsage snapshot))
           \<le> 100 * (1 - real (unat (RamFree snapshot)) / real (unat (RamSize snapshot))) + 1 / 1000 \<and>
         (0 < t \<and> f \<le> t \<longrightarrow> (\<exists>u. ram_usage f t = Inr u \<and> u \<le> 100))"
proof -
  have total: "0 < t \<and> f \<le> t \<longrightarrow> (\<exists>u. ram_usage f t = Inr u \<and> u \<le> 100)"
    using ram_usage_range [of t f] by (auto simp add: word_greater_zero_iff)
  from assms(3) have nz: "RamSize snapshot \<noteq> 0"
    by (simp add: word_greater_zero_iff)
  have "rc = 0 \<and> ram_usage (RamFree snapshot) (RamSize snapshot) = Inr (RamUsage snapshot)"
  proof (cases "lx_sysinfo host")
    case None
    from GetInfo_linux_sysinfo_fails [OF assms(1) None] assms(2) nz show ?thesis
      by (simp add: zero_corinfo_def)
  next
    case (Some sys)
    note eq = GetInfo_linux_identified [OF assms(1) Some]
    show ?thesis
    proof (cases "lx_cpuinfo host")
      case None
      with eq assms(2) nz show ?thesis
        by (auto simp add: identified_keeps_zero)
    next
      case f: (Some content)
      with eq assms(2) show ?thesis
        by (auto simp add: and_then_def split: sum.splits option.splits)
    qed
  qed
  moreover from ram_usage_range [OF nz assms(4)] obtain u
    where u: "ram_usage (RamFree snapshot) (RamSize snapshot) = Inr u" "u \<le> 100"
      "100 * (1 - real (unat (RamFree snapshot)) / real (unat (RamSize snapshot))) - 1 - 1 / 1000
         < real (unat u)"
      "real (unat u)
         \<le> 100 * (1 - real (unat (RamFree snapshot)) / real (unat (RamSize snapshot))) + 1 / 1000"
    by blast
  ultimately have "u = RamUsage snapshot"
    by simp
  with u \<open>rc = 0 \<and> _\<close> total show ?thesis
    by (simp only: simp_thms)
qed

text \<open>At the example host: half of the memory is free, and the usage is 50.\<close>

theorem ram_usage_percent_witness:
  "corinfo_wf zero_corinfo \<and>
   corinfo_GetInfo_linux example_linux (Some zero_corinfo) =
     Inr (0, Some example_result,
          [Ev_sysinfo, Ev_cpuid 0x00000000, Ev_cpuid 0x80000002, Ev_cpuid 0x80000003,
           Ev_cpuid 0x80000004, Ev_cpuid 0x00000001, Ev_fopen, Ev_getline, Ev_getline,
           Ev_getline, Ev_fclose, Ev_sysconf]) \<and>
   RamSize example_result = 16777216 \<and> RamFree example_result = 8388608 \<and>
   0 < RamSize example_result \<and> RamFree example_result \<le> RamSize example_result \<and>
   ram_usage 8388608 16777216 = Inr 50 \<and>
   RamUsage example_result = 50 \<and> RamUsage example_result \<le> 100"
proof -
  have s: "RamSize example_result = 16777216" "RamFree example_result = 8388608"
    "RamUsage example_result = 50"
    by (simp_all add: example_result_def)
  have a: "0 < RamSize example_result" and b: "RamFree example_result \<le> RamSize example_result"
    by (simp_all add: s)
  from ram_usage_percent [OF corinfo_wf_zero example_linux_result a b] s
  have "ram_usage 8388608 16777216 = Inr 50" and "RamUsage example_result \<le> 100"
    by simp_all
  with s a b example_linux_result show ?thesis
    by (simp only: simp_thms corinfo_wf_zero)
qed

end
